theory Spec2Isabelle
  imports Complex_Main "HOL-Library.AList" "HOL-Library.Sublist"
begin

section \<open>Values handled by the MuJoCo exporter\<close>

text \<open>
  Python floats are modelled as reals; the rounding of IEEE arithmetic is not modelled.
  Vectors and matrices of fixed shape are tuples, so that an array of the wrong shape is
  excluded by the type. The 4x4 homogeneous transforms are an abstract type \<open>'m\<close>:
  the exporter only inverts, multiplies and reads them through numpy and transforms3d.
\<close>

type_synonym vec3 = "real \<times> real \<times> real"
type_synonym quat = "real \<times> real \<times> real \<times> real"
type_synonym mat3 = "vec3 \<times> vec3 \<times> vec3"

datatype error =
    LinAlgError
  | KeyError string
  | TypeError
  | RecursionError
  | FileNotFoundError string

text \<open>
  The library functions the exporter calls, taken as parameters:
  \<^item> \<open>g20 x\<close> is Python's \<^verbatim>\<open>"%.20g" % x\<close>;
  \<^item> \<open>pystr x\<close> is the text an f-string gives a float, \<^verbatim>\<open>f"{x}"\<close>;
  \<^item> \<open>xml_escape\<close> is \<^verbatim>\<open>exporter_utils.xml_escape\<close>;
  \<^item> \<open>set_iter xs\<close> is the order in which \<^verbatim>\<open>set(xs)\<close> is iterated;
  \<^item> \<open>eye4\<close> is \<^verbatim>\<open>np.eye(4)\<close>, \<open>mat_inv\<close> is \<^verbatim>\<open>np.linalg.inv\<close>
    (\<open>None\<close> when it raises LinAlgError on a singular matrix), \<open>mat_mul\<close> is \<^verbatim>\<open>@\<close>;
  \<^item> \<open>mat_pos m\<close> is \<^verbatim>\<open>m[:3, 3]\<close> and \<open>mat2quat m\<close> is
    \<^verbatim>\<open>transforms3d.quaternions.mat2quat(m[:3, :3])\<close>.
\<close>

record 'm pyenv =
  g20 :: "real \<Rightarrow> string"
  pystr :: "real \<Rightarrow> string"
  xml_escape :: "string \<Rightarrow> string"
  set_iter :: "string list \<Rightarrow> string list"
  eye4 :: 'm
  mat_inv :: "'m \<Rightarrow> 'm option"
  mat_mul :: "'m \<Rightarrow> 'm \<Rightarrow> 'm"
  mat_pos :: "'m \<Rightarrow> vec3"
  mat2quat :: "'m \<Rightarrow> quat"

text \<open>Decimal text of Python integers, as \<^verbatim>\<open>str\<close> gives it.\<close>

fun str_nat :: "nat \<Rightarrow> string" where
  "str_nat n = (if n < 10 then [''0123456789'' ! n]
                else str_nat (n div 10) @ [''0123456789'' ! (n mod 10)])"

definition str_int :: "int \<Rightarrow> string" where
  "str_int i = (if i < 0 then ''-'' @ str_nat (nat (- i)) else str_nat (nat i))"

text \<open>
  Modelled from the spec: the values of a joint's property mapping (robot.py is not part
  of the sources), "string keys to scalar/string values".
\<close>

datatype pval = PBool bool | PInt int | PFloat real | PStr string

text \<open>Python truthiness, as \<^verbatim>\<open>if v:\<close> reads a value.\<close>

fun truthy :: "pval \<Rightarrow> bool" where
  "truthy (PBool b) = b"
| "truthy (PInt i) = (i \<noteq> 0)"
| "truthy (PFloat r) = (r \<noteq> 0)"
| "truthy (PStr s) = (s \<noteq> [])"

text \<open>The text an f-string gives a value, \<^verbatim>\<open>f"{v}"\<close>.\<close>

fun py_format :: "'m pyenv \<Rightarrow> pval \<Rightarrow> string" where
  "py_format env (PBool b) = (if b then ''True'' else ''False'')"
| "py_format env (PInt i) = str_int i"
| "py_format env (PFloat r) = pystr env r"
| "py_format env (PStr s) = s"

text \<open>\<^verbatim>\<open>dict.get(key, default)\<close>.\<close>

definition dict_get :: "(string \<rightharpoonup> pval) \<Rightarrow> string \<Rightarrow> pval \<Rightarrow> pval" where
  "dict_get d key dflt = (case d key of None \<Rightarrow> dflt | Some v \<Rightarrow> v)"

section \<open>The robot model\<close>

text \<open>
  Modelled from the spec: Robot, Link, Joint, Part and the shapes (robot.py and shapes.py
  are not part of the sources). A Python object is compared by identity; a link carries
  its identity as \<open>link_id\<close>.
\<close>

datatype 'm shape = Box vec3 'm | Cylinder real real 'm | Sphere real 'm

primrec T_part_shape :: "'m shape \<Rightarrow> 'm" where
  "T_part_shape (Box sz T) = T"
| "T_part_shape (Cylinder r l T) = T"
| "T_part_shape (Sphere r T) = T"

record 'm part =
  part_name :: string
  mesh_file :: "string option"
  shapes :: "'m shape list option"
  color :: vec3
  T_world_part :: 'm

record 'm link =
  link_id :: nat
  link_name :: string
  parts :: "'m part list"
  frames :: "(string \<times> 'm) list"
  get_dynamics :: "'m \<Rightarrow> real \<times> vec3 \<times> mat3"

datatype jtype = REVOLUTE | PRISMATIC | FIXED | OTHER_JOINT_TYPE

record 'm joint =
  joint_name :: string
  joint_type :: jtype
  parent :: "'m link"
  child :: "'m link"
  T_world_joint :: 'm
  properties :: "string \<rightharpoonup> pval"
  limits :: "(real \<times> real) option"

record 'm robot =
  robot_name :: string
  links :: "'m link list"
  joints :: "'m joint list"
  base_link :: "'m link"

definition get_base_link :: "'m robot \<Rightarrow> 'm link" where
  "get_base_link robot = base_link robot"

text \<open>The joints whose parent is this link, in the order of the robot's joint list.\<close>

definition get_link_joints :: "'m robot \<Rightarrow> 'm link \<Rightarrow> 'm joint list" where
  "get_link_joints robot link =
     filter (\<lambda>joint. link_id (parent joint) = link_id link) (joints robot)"

text \<open>
  Modelled from the spec: the configuration surface (config.py is not part of the
  sources). \<open>cfg_drawCollisions\<close> and \<open>cfg_additionalXML\<close> are \<open>None\<close> when the key
  is absent, so that \<^verbatim>\<open>config.get\<close> gives its default.
\<close>

record config =
  cfg_no_dynamics :: bool
  cfg_collision_shapes_only :: bool
  cfg_drawCollisions :: "bool option"
  cfg_additionalXML :: "string option"
  output_directory :: string
  printable_version :: string

section \<open>The exporter\<close>

text \<open>
  The attributes of an ExporterMuJoCo instance. \<open>xml\<close> holds the fragments appended so
  far, in order: the text of the document is their concatenation. \<open>materials\<close> is a
  Python dict, an association list in insertion order. \<open>warnings\<close> is what was printed.
\<close>

record exporter =
  config :: "config option"
  draw_collisions :: bool
  no_dynamics :: bool
  additional_xml :: string
  meshes :: "string list"
  materials :: "(string \<times> vec3) list"
  collision_shapes_only :: bool
  xml :: "string list"
  warnings :: "string list"

definition ExporterMuJoCo_init ::
  "(string \<rightharpoonup> string) \<Rightarrow> config option \<Rightarrow> error + exporter" where
  "ExporterMuJoCo_init files cfg =
    (let self = \<lparr> config = cfg, draw_collisions = False, no_dynamics = False,
                   additional_xml = [], meshes = [], materials = [],
                   collision_shapes_only = False, xml = [], warnings = [] \<rparr>
     in case cfg of
          None \<Rightarrow> Inr self
        | Some c \<Rightarrow>
            (let self1 = self\<lparr> no_dynamics := cfg_no_dynamics c,
                               collision_shapes_only := cfg_collision_shapes_only c,
                               draw_collisions :=
                                 (case cfg_drawCollisions c of None \<Rightarrow> False | Some b \<Rightarrow> b) \<rparr>;
                 additional_xml_file =
                   (case cfg_additionalXML c of None \<Rightarrow> [] | Some f \<Rightarrow> f)
             in if additional_xml_file \<noteq> []
                then (case files (output_directory c @ ''/'' @ additional_xml_file) of
                        None \<Rightarrow> Inl (FileNotFoundError
                                  (output_directory c @ ''/'' @ additional_xml_file))
                      | Some text \<Rightarrow> Inr (self1\<lparr> additional_xml := text \<rparr>))
                else Inr self1))"

definition append_line :: "string \<Rightarrow> exporter \<Rightarrow> exporter" where
  "append_line line self = self\<lparr> xml := xml self @ [line] \<rparr>"

text \<open>A loop whose body may raise: the first error ends it.\<close>

fun for_each :: "('a \<Rightarrow> 's \<Rightarrow> error + 's) \<Rightarrow> 'a list \<Rightarrow> 's \<Rightarrow> error + 's" where
  "for_each body [] s = Inr s"
| "for_each body (x # xs) s =
     (case body x s of Inl e \<Rightarrow> Inl e | Inr s' \<Rightarrow> for_each body xs s')"

definition pos_quat :: "'m pyenv \<Rightarrow> 'm \<Rightarrow> string" where
  \<open>pos_quat env matrix =
    (case (mat_pos env matrix, mat2quat env matrix) of
       ((px, py, pz), (qw, qx, qy, qz)) \<Rightarrow>
         ''pos="'' @ g20 env px @ '' '' @ g20 env py @ '' '' @ g20 env pz
         @ ''" quat="'' @ g20 env qw @ '' '' @ g20 env qx @ '' '' @ g20 env qy
         @ '' '' @ g20 env qz @ ''"'')\<close>

section \<open>Actuators and inertial nodes\<close>

text \<open>The pass-through loop of add_actuators: \<^verbatim>\<open>for key in "class", "kp", "kd", "ki"\<close>.\<close>

fun actuator_keys :: "'m pyenv \<Rightarrow> (string \<rightharpoonup> pval) \<Rightarrow> string list \<Rightarrow> string \<Rightarrow> string" where
  \<open>actuator_keys env props [] actuator = actuator\<close>
| \<open>actuator_keys env props (key # keys) actuator =
     (case props key of
        Some v \<Rightarrow> actuator_keys env props keys (actuator @ key @ ''="'' @ py_format env v @ ''" '')
      | None \<Rightarrow> actuator_keys env props keys actuator)\<close>

text \<open>
  The body of the loop of add_actuators for one joint. The comparison
  \<^verbatim>\<open>type == "position"\<close> holds for the string \<open>position\<close> only.
\<close>

definition add_actuator :: "'m pyenv \<Rightarrow> 'm joint \<Rightarrow> exporter \<Rightarrow> exporter" where
  \<open>add_actuator env joint self =
    (if truthy (dict_get (properties joint) ''actuated'' (PBool True)) then
       (let type = dict_get (properties joint) ''type'' (PStr ''position'');
            actuator = ''<'' @ py_format env type @ '' name="'' @ joint_name joint
                       @ ''" joint="'' @ joint_name joint @ ''" '';
            actuator1 = actuator_keys env (properties joint)
                          [''class'', ''kp'', ''kd'', ''ki''] actuator;
            actuator2 = (case properties joint ''effort'' of
                           Some e \<Rightarrow> actuator1 @ ''forcerange="-'' @ py_format env e @ '' ''
                                      @ py_format env e @ ''" ''
                         | None \<Rightarrow> actuator1);
            actuator3 = (case limits joint of
                           Some (lo, hi) \<Rightarrow>
                             (if type = PStr ''position''
                              then actuator2 @ ''ctrlrange="'' @ pystr env lo @ '' ''
                                   @ pystr env hi @ ''" ''
                              else actuator2)
                         | None \<Rightarrow> actuator2)
        in append_line (actuator3 @ ''/>'') self)
     else self)\<close>

definition add_actuators :: "'m pyenv \<Rightarrow> 'm robot \<Rightarrow> exporter \<Rightarrow> exporter" where
  \<open>add_actuators env robot self =
     append_line ''</actuator>''
       (fold (add_actuator env) (joints robot) (append_line ''<actuator>'' self))\<close>

text \<open>\<^verbatim>\<open>inertia[i, j]\<close> for i, j in 0..2.\<close>

fun idx3 :: "'a \<times> 'a \<times> 'a \<Rightarrow> nat \<Rightarrow> 'a" where
  "idx3 (a, b, c) i = (if i = 0 then a else if i = 1 then b else c)"

definition mat_at :: "mat3 \<Rightarrow> nat \<Rightarrow> nat \<Rightarrow> real" where
  "mat_at m i j = idx3 (idx3 m i) j"

definition add_inertial :: "'m pyenv \<Rightarrow> real \<Rightarrow> vec3 \<Rightarrow> mat3 \<Rightarrow> exporter \<Rightarrow> exporter" where
  \<open>add_inertial env mass com inertia self =
    (let inertial = ''<inertial '';
         inertial1 = inertial @ ''pos="'' @ g20 env (idx3 com 0) @ '' '' @ g20 env (idx3 com 1)
                     @ '' '' @ g20 env (idx3 com 2) @ ''" '';
         inertial2 = inertial1 @ ''mass="'' @ g20 env mass @ ''" '';
         inertial3 = inertial2 @ ''fullinertia="''
                     @ g20 env (mat_at inertia 0 0) @ '' ''
                     @ g20 env (mat_at inertia 1 1) @ '' ''
                     @ g20 env (mat_at inertia 2 2) @ '' ''
                     @ g20 env (mat_at inertia 0 1) @ '' ''
                     @ g20 env (mat_at inertia 0 2) @ '' ''
                     @ g20 env (mat_at inertia 1 2) @ ''" ''
     in append_line (inertial3 @ '' />'') self)\<close>

section \<open>Geometry\<close>

text \<open>\<^verbatim>\<open>os.path.basename\<close>, \<^verbatim>\<open>str.split(".")\<close> and \<^verbatim>\<open>".".join\<close>.\<close>

definition basename :: "string \<Rightarrow> string" where
  "basename p = rev (takeWhile (\<lambda>c. c \<noteq> CHR ''/'') (rev p))"

fun split_dot :: "string \<Rightarrow> string list" where
  "split_dot [] = [[]]"
| "split_dot (c # cs) =
     (if c = CHR ''.'' then [] # split_dot cs
      else (case split_dot cs of [] \<Rightarrow> [[c]] | w # ws \<Rightarrow> (c # w) # ws))"

fun join_dot :: "string list \<Rightarrow> string" where
  "join_dot [] = []"
| "join_dot [w] = w"
| "join_dot (w # ws) = w @ ''.'' @ join_dot ws"

definition add_mesh ::
  "'m pyenv \<Rightarrow> 'm part \<Rightarrow> string \<Rightarrow> 'm \<Rightarrow> exporter \<Rightarrow> error + exporter" where
  \<open>add_mesh env part class' T_world_link self =
    (case mesh_file part of
       None \<Rightarrow> Inl TypeError
     | Some path \<Rightarrow>
        (let mesh_file = basename path;
             mesh_file_no_ext = join_dot (butlast (split_dot mesh_file));
             material_name = mesh_file_no_ext @ ''_material''
         in case mat_inv env T_world_link of
              None \<Rightarrow> Inl LinAlgError
            | Some T_link_world \<Rightarrow>
               (let T_link_part = mat_mul env T_link_world (T_world_part part);
                    self1 = append_line (''<!-- Mesh '' @ part_name part @ '' -->'') self;
                    geom = ''<geom type="mesh" class="'' @ class' @ ''" ''
                           @ pos_quat env T_link_part @ '' ''
                           @ ''mesh="'' @ xml_escape env mesh_file_no_ext @ ''" ''
                           @ ''material="'' @ xml_escape env material_name @ ''" ''
                           @ '' />'';
                    self2 = self1\<lparr> meshes := meshes self1 @ [mesh_file] \<rparr>;
                    self3 = self2\<lparr> materials :=
                                      AList.update material_name (color part) (materials self2) \<rparr>
                in Inr (append_line geom self3))))\<close>

text \<open>The text add_shapes writes for the kind of a shape and its size.\<close>

fun shape_size :: "'m pyenv \<Rightarrow> 'm shape \<Rightarrow> string" where
  \<open>shape_size env (Box (sx, sy, sz) T) =
     ''type="box" size="'' @ g20 env (sx / 2) @ '' '' @ g20 env (sy / 2) @ '' ''
     @ g20 env (sz / 2) @ ''" ''\<close>
| \<open>shape_size env (Cylinder radius len T) =
     ''type="cylinder" size="'' @ g20 env radius @ '' '' @ g20 env (len / 2) @ ''" ''\<close>
| \<open>shape_size env (Sphere radius T) =
     ''type="sphere" size="'' @ g20 env radius @ ''" ''\<close>

text \<open>The body of the loop of add_shapes for one shape.\<close>

definition add_shape ::
  "'m pyenv \<Rightarrow> 'm part \<Rightarrow> string \<Rightarrow> 'm \<Rightarrow> 'm shape \<Rightarrow> exporter \<Rightarrow> error + exporter" where
  \<open>add_shape env part class' T_world_link shape self =
    (let geom = ''<geom class="'' @ class' @ ''" ''
     in case mat_inv env T_world_link of
          None \<Rightarrow> Inl LinAlgError
        | Some T_link_world \<Rightarrow>
           (let T_link_shape = mat_mul env (mat_mul env T_link_world (T_world_part part))
                                 (T_part_shape shape);
                geom1 = geom @ pos_quat env T_link_shape @ '' '';
                geom2 = geom1 @ shape_size env shape
            in if class' = ''visual''
               then (let material_name = part_name part @ ''_material'';
                         self1 = self\<lparr> materials :=
                                   AList.update material_name (color part) (materials self) \<rparr>;
                         geom3 = geom2 @ ''material="'' @ xml_escape env material_name @ ''" ''
                     in Inr (append_line (geom3 @ '' />'') self1))
               else Inr (append_line (geom2 @ '' />'') self)))\<close>

definition add_shapes ::
  "'m pyenv \<Rightarrow> 'm part \<Rightarrow> string \<Rightarrow> 'm \<Rightarrow> exporter \<Rightarrow> error + exporter" where
  "add_shapes env part class' T_world_link self =
    (case shapes part of
       None \<Rightarrow> Inl TypeError
     | Some shs \<Rightarrow> for_each (add_shape env part class' T_world_link) shs self)"

text \<open>\<^verbatim>\<open>part.mesh_file\<close> read as a condition: neither None nor the empty string.\<close>

definition has_mesh :: "'m part \<Rightarrow> bool" where
  "has_mesh part = (case mesh_file part of None \<Rightarrow> False | Some path \<Rightarrow> path \<noteq> [])"

definition add_geometries ::
  "'m pyenv \<Rightarrow> 'm part \<Rightarrow> 'm \<Rightarrow> string \<Rightarrow> string \<Rightarrow> exporter \<Rightarrow> error + exporter" where
  "add_geometries env part T_world_link class' what self =
    (if what = ''collision'' \<and> shapes part \<noteq> None
     then add_shapes env part class' T_world_link self
     else if has_mesh part \<and> (what = ''visual'' \<or> \<not> collision_shapes_only self)
     then add_mesh env part class' T_world_link self
     else Inr self)"

section \<open>Joints, frames and the traversal of the links\<close>

text \<open>
  The pass-through loop of add_joint. Once \<open>key\<close> is rebound to \<open>frictionloss\<close> the
  value is read under the new key: \<^verbatim>\<open>joint.properties[key]\<close> raises KeyError when the
  mapping has no such key.
\<close>

fun joint_keys ::
  "'m pyenv \<Rightarrow> (string \<rightharpoonup> pval) \<Rightarrow> string list \<Rightarrow> string \<Rightarrow> error + string" where
  \<open>joint_keys env props [] joint_xml = Inr joint_xml\<close>
| \<open>joint_keys env props (key # keys) joint_xml =
     (if props key \<noteq> None then
        (let key1 = (if key = ''friction'' then ''frictionloss'' else key)
         in case props key1 of
              None \<Rightarrow> Inl (KeyError key1)
            | Some v \<Rightarrow> joint_keys env props keys
                         (joint_xml @ key1 @ ''="'' @ py_format env v @ ''" ''))
      else joint_keys env props keys joint_xml)\<close>

definition add_joint :: "'m pyenv \<Rightarrow> 'm joint \<Rightarrow> exporter \<Rightarrow> error + exporter" where
  \<open>add_joint env joint self =
    (let self1 = append_line (''<!-- Joint from '' @ link_name (parent joint) @ '' to ''
                              @ link_name (child joint) @ '' -->'') self;
         joint_xml = ''<joint '' @ ''name="'' @ joint_name joint @ ''" '';
         (joint_xml1, self2) =
           (case joint_type joint of
              REVOLUTE \<Rightarrow> (joint_xml @ ''type="hinge" '', self1)
            | PRISMATIC \<Rightarrow> (joint_xml @ ''type="slide" '', self1)
            | FIXED \<Rightarrow> (joint_xml @ ''type="free" '',
                        self1\<lparr> warnings := warnings self1
                                 @ [''Joint type is not supported in MuJoCo: fixed''] \<rparr>)
            | OTHER_JOINT_TYPE \<Rightarrow> (joint_xml, self1))
     in case joint_keys env (properties joint)
               [''class'', ''friction'', ''frictionloss'', ''armature'', ''damping'',
                ''stiffness''] joint_xml1 of
          Inl e \<Rightarrow> Inl e
        | Inr joint_xml2 \<Rightarrow> Inr (append_line (joint_xml2 @ '' />'') self2))\<close>

definition add_frame ::
  "'m pyenv \<Rightarrow> 'm link \<Rightarrow> string \<Rightarrow> 'm \<Rightarrow> 'm \<Rightarrow> exporter \<Rightarrow> error + exporter" where
  \<open>add_frame env link frame T_world_link T_world_frame self =
    (let self1 = append_line (''<!-- Frame '' @ frame @ '' (dummy link + fixed joint) -->'') self
     in case mat_inv env T_world_link of
          None \<Rightarrow> Inl LinAlgError
        | Some T_link_world \<Rightarrow>
           (let T_link_frame = mat_mul env T_link_world T_world_frame;
                site = ''<site name="'' @ frame @ ''" '' @ pos_quat env T_link_frame @ '' ''
                       @ '' />''
            in Inr (append_line site self1)))\<close>

text \<open>The body of the loop of add_link over the parts of the link.\<close>

definition add_part :: "'m pyenv \<Rightarrow> 'm \<Rightarrow> 'm part \<Rightarrow> exporter \<Rightarrow> error + exporter" where
  \<open>add_part env T_world_link part self =
    (let self1 = append_line (''<!-- Part '' @ part_name part @ '' -->'') self
     in case add_geometries env part T_world_link ''visual''
               (if draw_collisions self1 then ''collision'' else ''visual'') self1 of
          Inl e \<Rightarrow> Inl e
        | Inr self2 \<Rightarrow> add_geometries env part T_world_link ''collision'' ''collision'' self2)\<close>

text \<open>The world transform of the link being added: line 245 to 248 of add_link.\<close>

definition T_world_of :: "'m pyenv \<Rightarrow> 'm joint option \<Rightarrow> 'm" where
  "T_world_of env parent_joint =
     (case parent_joint of None \<Rightarrow> eye4 env | Some joint \<Rightarrow> T_world_joint joint)"

definition body_node :: "'m pyenv \<Rightarrow> 'm link \<Rightarrow> 'm \<Rightarrow> string" where
  \<open>body_node env link T_parent_link =
     ''<body name="'' @ link_name link @ ''" '' @ pos_quat env T_parent_link @ '' >''\<close>

text \<open>
  add_link. The first argument is the number of nested calls the interpreter still
  allows: the recursion of the source ends with RecursionError when it is used up.
\<close>

fun add_link ::
  "'m pyenv \<Rightarrow> nat \<Rightarrow> 'm robot \<Rightarrow> 'm link \<Rightarrow> 'm joint option \<Rightarrow> 'm \<Rightarrow> exporter
     \<Rightarrow> error + exporter" where
  \<open>add_link env 0 robot link parent_joint T_world_parent self = Inl RecursionError\<close>
| \<open>add_link env (Suc depth) robot link parent_joint T_world_parent self =
    (let T_world_link = T_world_of env parent_joint;
         self1 = append_line (''<!-- Link '' @ link_name link @ '' -->'') self
     in case mat_inv env T_world_parent of
          None \<Rightarrow> Inl LinAlgError
        | Some T_parent_world \<Rightarrow>
           (let T_parent_link = mat_mul env T_parent_world T_world_link;
                self2 = append_line (body_node env link T_parent_link) self1
            in case (case parent_joint of
                       None \<Rightarrow> Inr (append_line ''<freejoint name="root" />'' self2)
                     | Some joint \<Rightarrow> add_joint env joint self2) of
                 Inl e \<Rightarrow> Inl e
               | Inr self3 \<Rightarrow>
                  (case get_dynamics link T_world_link of
                     (mass, com, inertia) \<Rightarrow>
                      (let self4 = add_inertial env mass com inertia self3
                       in case for_each (add_part env T_world_link) (parts link) self4 of
                            Inl e \<Rightarrow> Inl e
                          | Inr self5 \<Rightarrow>
                             (case for_each
                                     (\<lambda>(frame, T_world_frame).
                                        add_frame env link frame T_world_link T_world_frame)
                                     (frames link) self5 of
                                Inl e \<Rightarrow> Inl e
                              | Inr self6 \<Rightarrow>
                                 (case for_each
                                         (\<lambda>joint. add_link env depth robot (child joint)
                                                    (Some joint) T_world_link)
                                         (get_link_joints robot link) self6 of
                                    Inl e \<Rightarrow> Inl e
                                  | Inr self7 \<Rightarrow> Inr (append_line ''</body>'' self7)))))))\<close>

section \<open>The document\<close>

text \<open>Line 39 to 63 of build: the document is started afresh and its head is written.\<close>

definition build_head :: "'m robot \<Rightarrow> exporter \<Rightarrow> exporter" where
  \<open>build_head robot self =
    (let self1 = self\<lparr> xml := [] \<rparr>;
         self2 = append_line ''<?xml version="1.0" ?>'' self1;
         self3 = append_line ''<!-- Generated using onshape-to-robot -->'' self2;
         self4 = (case config self3 of
                    None \<Rightarrow> self3
                  | Some c \<Rightarrow> append_line (''<!-- OnShape '' @ printable_version c @ '' -->'') self3);
         self5 = append_line (''<mujoco model="'' @ robot_name robot @ ''">'') self4;
         self6 = append_line ''<compiler angle="radian" meshdir="." />'' self5;
         self7 = append_line ''<option noslip_iterations="1"></option>'' self6;
         self8 = (if additional_xml self7 \<noteq> [] then append_line (additional_xml self7) self7
                  else self7)
     in foldl (\<lambda>s line. append_line line s) self8
          [''<default>'',
           ''<joint frictionloss="0.1" armature="0.005"/>'',
           ''<position kp="50" kv="5"/>'',
           ''<default class="visual">'',
           ''<geom type="mesh" contype="0" conaffinity="0" group="2"/>'',
           ''</default>'',
           ''<default class="collision">'',
           ''<geom group="3"/>'',
           ''</default>'',
           ''</default>'',
           ''<worldbody>''])\<close>

definition mesh_decl :: "string \<Rightarrow> string" where
  \<open>mesh_decl file = ''<mesh file="'' @ file @ ''" />''\<close>

definition material_decl :: "'m pyenv \<Rightarrow> string \<times> vec3 \<Rightarrow> string" where
  \<open>material_decl env item =
    (case item of
       (material_name, (r, g, b)) \<Rightarrow>
         ''<material name="'' @ material_name @ ''" rgba="''
         @ g20 env r @ '' '' @ g20 env g @ '' '' @ g20 env b @ '' 1'' @ ''" />'')\<close>

text \<open>Line 69 to 75 of build: the asset section.\<close>

definition build_assets :: "'m pyenv \<Rightarrow> exporter \<Rightarrow> exporter" where
  \<open>build_assets env self =
    (let self1 = append_line ''<asset>'' self;
         self2 = fold (\<lambda>mesh_file. append_line (mesh_decl mesh_file))
                   (set_iter env (meshes self1)) self1;
         self3 = fold (\<lambda>item. append_line (material_decl env item)) (materials self2) self2
     in append_line ''</asset>'' self3)\<close>

text \<open>
  build returns the text of the document; the exporter it leaves behind is returned with
  it, since a later call starts from that exporter.
\<close>

definition build ::
  "'m pyenv \<Rightarrow> nat \<Rightarrow> 'm robot \<Rightarrow> exporter \<Rightarrow> error + (string \<times> exporter)" where
  \<open>build env depth robot self =
    (let self1 = build_head robot self
     in case add_link env depth robot (get_base_link robot) None (eye4 env) self1 of
          Inl e \<Rightarrow> Inl e
        | Inr self2 \<Rightarrow>
           (let self3 = append_line ''</worldbody>'' self2;
                self4 = build_assets env self3;
                self5 = add_actuators env robot self4;
                self6 = append_line ''</mujoco>'' self5
            in Inr (concat (xml self6), self6)))\<close>

section \<open>A concrete environment\<close>

text \<open>
  An environment on which the definitions can be run. Numbers are written as
  \<^verbatim>\<open>%.20g\<close> and \<^verbatim>\<open>str\<close> write a float that holds a whole number of magnitude below
  \<open>10\<^sup>1\<^sup>6\<close> (\<open>1\<close> and \<open>1.0\<close>); no other number is formatted by the examples. The
  transforms are the pure translations, given by their offset: the rotation block is the
  identity, whose quaternion is \<open>(1, 0, 0, 0)\<close>. \<open>xml_escape\<close> replaces the five
  characters XML reserves, and a set is iterated in the order of first insertion.
\<close>

definition g20_whole :: "real \<Rightarrow> string" where
  "g20_whole x = (if x = of_int \<lfloor>x\<rfloor> then str_int \<lfloor>x\<rfloor> else ''?'')"

definition pystr_whole :: "real \<Rightarrow> string" where
  "pystr_whole x = (if x = of_int \<lfloor>x\<rfloor> then str_int \<lfloor>x\<rfloor> @ ''.0'' else ''?'')"

definition escape_char :: "char \<Rightarrow> string" where
  \<open>escape_char c =
     (if c = CHR ''&'' then ''&amp;''
      else if c = CHR ''<'' then ''&lt;''
      else if c = CHR ''>'' then ''&gt;''
      else if c = CHR 0x27 then ''&apos;''
      else if c = CHR 0x22 then ''&quot;''
      else [c])\<close>

definition shift_env :: "vec3 pyenv" where
  "shift_env =
     \<lparr> g20 = g20_whole, pystr = pystr_whole,
       xml_escape = (\<lambda>s. concat (map escape_char s)),
       set_iter = remdups,
       eye4 = (0, 0, 0),
       mat_inv = (\<lambda>(x, y, z). Some (- x, - y, - z)),
       mat_mul = (\<lambda>(x, y, z) (x', y', z'). (x + x', y + y', z + z')),
       mat_pos = (\<lambda>t. t),
       mat2quat = (\<lambda>t. (1, 0, 0, 0)) \<rparr>"

text \<open>A new exporter with no configuration, as \<^verbatim>\<open>ExporterMuJoCo()\<close> makes it.\<close>

definition new_exporter :: exporter where
  "new_exporter =
     \<lparr> config = None, draw_collisions = False, no_dynamics = False,
       additional_xml = [], meshes = [], materials = [],
       collision_shapes_only = False, xml = [], warnings = [] \<rparr>"

section \<open>Reference definitions following the specification\<close>

text \<open>
  The size parameters the specification gives a primitive shape: half-extents for a
  box, radius and half-length for a cylinder, radius for a sphere.
\<close>

fun size_params :: "'m shape \<Rightarrow> real list" where
  "size_params (Box (sx, sy, sz) T) = [sx / 2, sy / 2, sz / 2]"
| "size_params (Cylinder radius len T) = [radius, len / 2]"
| "size_params (Sphere radius T) = [radius]"

fun shape_kind :: "'m shape \<Rightarrow> string" where
  "shape_kind (Box sz T) = ''box''"
| "shape_kind (Cylinder radius len T) = ''cylinder''"
| "shape_kind (Sphere radius T) = ''sphere''"

fun join_space :: "string list \<Rightarrow> string" where
  "join_space [] = []"
| "join_space [w] = w"
| "join_space (w # ws) = w @ '' '' @ join_space ws"

text \<open>
  The geometry node of a primitive shape: its class, its pose relative to the link, its
  kind and size parameters and, for the visual class, the material of the part.
\<close>

definition shape_geom :: "'m pyenv \<Rightarrow> 'm part \<Rightarrow> string \<Rightarrow> 'm \<Rightarrow> 'm shape \<Rightarrow> string" where
  \<open>shape_geom env part cls T_link_world shape =
     ''<geom class="'' @ cls @ ''" ''
     @ pos_quat env (mat_mul env (mat_mul env T_link_world (T_world_part part))
                       (T_part_shape shape))
     @ '' type="'' @ shape_kind shape
     @ ''" size="'' @ join_space (map (g20 env) (size_params shape)) @ ''" ''
     @ (if cls = ''visual''
        then ''material="'' @ xml_escape env (part_name part @ ''_material'') @ ''" ''
        else [])
     @ '' />''\<close>

text \<open>
  The actuator of a joint as the specification describes it: a joint is actuated when its
  "actuated" property is absent or true; the kind of the actuator is the "type" property,
  "position" when absent; the gains that are present are copied; an "effort" property of
  value e gives the symmetric force range from -e to e; the limits of a joint whose
  actuator kind is "position" give the control range.
\<close>











text \<open>
  A geometry node of a class: the two forms the exporter writes, a mesh node and a
  primitive shape node.
\<close>

definition geom_class :: "string \<Rightarrow> string \<Rightarrow> bool" where
  \<open>geom_class cls node =
     (prefix (''<geom type="mesh" class="'' @ cls @ ''" '') node
      \<or> prefix (''<geom class="'' @ cls @ ''" '') node)\<close>

text \<open>The fragments of the document a call of build has written, none when it raised.\<close>

definition document_nodes :: "error + (string \<times> exporter) \<Rightarrow> string list" where
  "document_nodes result = (case result of Inl e \<Rightarrow> [] | Inr (text, self) \<Rightarrow> xml self)"

text \<open>A second call of build on the exporter the first call has left.\<close>

definition then_build ::
  "'m pyenv \<Rightarrow> nat \<Rightarrow> 'm robot \<Rightarrow> error + (string \<times> exporter) \<Rightarrow> error + (string \<times> exporter)" where
  "then_build env depth robot result =
     (case result of Inl e \<Rightarrow> Inl e | Inr (text, self) \<Rightarrow> build env depth robot self)"






text \<open>
  A step of the exporter that registers the meshes \<open>ms\<close>, in this order, and leaves the
  two modes of the exporter as they are.
\<close>

definition registers :: "exporter \<Rightarrow> exporter \<Rightarrow> string list \<Rightarrow> bool" where
  "registers s s' ms \<longleftrightarrow>
     meshes s' = meshes s @ ms
     \<and> collision_shapes_only s' = collision_shapes_only s
     \<and> draw_collisions s' = draw_collisions s"

text \<open>
  The traversal of the links as the specification describes it. The world transform of a
  body is the identity for the base link, which has no incoming joint, and the transform
  carried by the incoming joint for any other body. A visit records the link, its incoming
  joint, the world transform of its parent body and the depth of nesting; the bodies
  below a link are visited after it, one per joint whose parent is the link, with the
  world transform of the link as that of the parent.
\<close>

definition world_body :: "'m pyenv \<Rightarrow> 'm joint option \<Rightarrow> 'm" where
  "world_body env incoming =
     (case incoming of None \<Rightarrow> eye4 env | Some joint \<Rightarrow> T_world_joint joint)"

record 'm visit =
  v_link :: "'m link"
  v_joint :: "'m joint option"
  v_parent_T :: 'm
  v_depth :: nat

fun walk ::
  "'m pyenv \<Rightarrow> nat \<Rightarrow> 'm robot \<Rightarrow> 'm link \<Rightarrow> 'm joint option \<Rightarrow> 'm \<Rightarrow> nat \<Rightarrow> 'm visit list" where
  "walk env 0 robot link incoming T_world_parent d = []"
| "walk env (Suc n) robot link incoming T_world_parent d =
     \<lparr> v_link = link, v_joint = incoming, v_parent_T = T_world_parent, v_depth = d \<rparr>
     # concat (map (\<lambda>joint. walk env n robot (child joint) (Some joint)
                               (world_body env incoming) (Suc d))
                 (get_link_joints robot link))"







text \<open>
  The body element of a visit as the specification gives it: the pose attributes of
  \<open>T_parent_body = invert(T_world_parent) \<cdot> T_world_body\<close>, the position and the quaternion
  extracted from that transform.
\<close>

definition body_pose :: "'m pyenv \<Rightarrow> 'm \<Rightarrow> 'm \<Rightarrow> 'm option" where
  "body_pose env T_world_parent T_world_body =
     map_option (\<lambda>T_parent_world. mat_mul env T_parent_world T_world_body)
       (mat_inv env T_world_parent)"

definition pose_attributes :: "'m pyenv \<Rightarrow> 'm \<Rightarrow> string" where
  \<open>pose_attributes env T =
     (case (mat_pos env T, mat2quat env T) of
        ((px, py, pz), (qw, qx, qy, qz)) \<Rightarrow>
          ''pos="'' @ join_space (map (g20 env) [px, py, pz])
          @ ''" quat="'' @ join_space (map (g20 env) [qw, qx, qy, qz]) @ ''"'')\<close>

definition body_element :: "'m pyenv \<Rightarrow> 'm visit \<Rightarrow> string option" where
  \<open>body_element env v =
     map_option (\<lambda>T_parent_body.
         ''<body name="'' @ link_name (v_link v) @ ''" '' @ pose_attributes env T_parent_body
         @ '' >'')
       (body_pose env (v_parent_T v) (world_body env (v_joint v)))\<close>

text \<open>
  The elements that open a body among the fragments of a document, each with the number
  of bodies that are open around it, and the number of open bodies after the fragments.
\<close>

fun bodies :: "nat \<Rightarrow> string list \<Rightarrow> (string \<times> nat) list" where
  "bodies d [] = []"
| "bodies d (x # xs) =
     (if prefix ''<body '' x then (x, d) # bodies (Suc d) xs
      else if x = ''</body>'' then bodies (d - 1) xs
      else bodies d xs)"

fun depth_after :: "nat \<Rightarrow> string list \<Rightarrow> nat" where
  "depth_after d [] = d"
| "depth_after d (x # xs) =
     (if prefix ''<body '' x then depth_after (Suc d) xs
      else if x = ''</body>'' then depth_after (d - 1) xs
      else depth_after d xs)"

definition body_entry :: "'m pyenv \<Rightarrow> 'm visit \<Rightarrow> (string \<times> nat) option" where
  "body_entry env v = map_option (\<lambda>node. (node, v_depth v)) (body_element env v)"

text \<open>
  The part of a document inside the worldbody element: the fragments after the last
  fragment that opens it, up to the fragment that closes it.
\<close>

definition worldbody_section :: "string list \<Rightarrow> string list" where
  "worldbody_section nodes =
     takeWhile (\<lambda>node. node \<noteq> ''</worldbody>'')
       (rev (takeWhile (\<lambda>node. node \<noteq> ''<worldbody>'') (rev nodes)))"

text \<open>
  A fragment that neither opens nor closes a body nor the worldbody element, and a step of
  the exporter that appends such fragments only.
\<close>

definition plain :: "string \<Rightarrow> bool" where
  "plain x \<longleftrightarrow>
     \<not> prefix ''<body '' x \<and> x \<noteq> ''</body>'' \<and> x \<noteq> ''<worldbody>'' \<and> x \<noteq> ''</worldbody>''"

definition appends_plain :: "exporter \<Rightarrow> exporter \<Rightarrow> bool" where
  "appends_plain s s' \<longleftrightarrow> (\<exists>new. xml s' = xml s @ new \<and> list_all plain new)"

text \<open>
  A step of the exporter that appends the bodies of the visits \<open>vs\<close>, each closed again,
  inside \<open>d\<close> open bodies.
\<close>

definition traces :: "'m pyenv \<Rightarrow> nat \<Rightarrow> exporter \<Rightarrow> exporter \<Rightarrow> 'm visit list \<Rightarrow> bool" where
  "traces env d s s' vs \<longleftrightarrow>
     (\<exists>new. xml s' = xml s @ new
        \<and> map Some (bodies d new) = map (body_entry env) vs
        \<and> depth_after d new = d
        \<and> list_all (\<lambda>x. x \<noteq> ''<worldbody>'' \<and> x \<noteq> ''</worldbody>'') new)"


section \<open>Example inputs\<close>

definition demo_box_part :: "vec3 part" where
  "demo_box_part =
     \<lparr> part_name = ''p1'', mesh_file = None, shapes = Some [Box (2, 2, 2) (0, 0, 0)],
       color = (1, 0, 0), T_world_part = (1, 2, 3) \<rparr>"

definition demo_link :: "nat \<Rightarrow> string \<Rightarrow> vec3 part list \<Rightarrow> vec3 link" where
  "demo_link i name ps =
     \<lparr> link_id = i, link_name = name, parts = ps, frames = [],
       get_dynamics = (\<lambda>T. (5, (0, 0, 1), ((1, 0, 0), (0, 2, 0), (0, 0, 3)))) \<rparr>"

definition demo_joint ::
  "string \<Rightarrow> jtype \<Rightarrow> vec3 link \<Rightarrow> vec3 link \<Rightarrow> (string \<times> pval) list \<Rightarrow> vec3 joint" where
  "demo_joint name kind p c props =
     \<lparr> joint_name = name, joint_type = kind, parent = p, child = c,
       T_world_joint = (1, 0, 0), properties = map_of props, limits = Some (- 2, 2) \<rparr>"



definition demo_mesh_part :: "vec3 part" where
  "demo_mesh_part =
     \<lparr> part_name = ''p1'', mesh_file = Some ''meshes/p1.stl'', shapes = None,
       color = (1, 0, 0), T_world_part = (1, 2, 3) \<rparr>"

definition demo_mesh_robot :: "vec3 robot" where
  "demo_mesh_robot =
     \<lparr> robot_name = ''one'', links = [demo_link 0 ''L0'' [demo_mesh_part]], joints = [],
       base_link = demo_link 0 ''L0'' [demo_mesh_part] \<rparr>"

definition shapes_only_config :: config where
  "shapes_only_config =
     \<lparr> cfg_no_dynamics = False, cfg_collision_shapes_only = True,
       cfg_drawCollisions = None, cfg_additionalXML = None, output_directory = ''out'',
       printable_version = ''v1'' \<rparr>"

text \<open>Joints whose properties hold a "friction" key.\<close>

definition demo_fixed_joint :: "vec3 joint" where
  "demo_fixed_joint =
     demo_joint ''J1'' FIXED (demo_link 0 ''L0'' []) (demo_link 1 ''L1'' [])
       [(''friction'', PInt 3)]"

definition demo_friction_joint :: "vec3 joint" where
  "demo_friction_joint =
     demo_joint ''J1'' REVOLUTE (demo_link 0 ''L0'' []) (demo_link 1 ''L1'' [])
       [(''friction'', PInt 3), (''frictionloss'', PInt 7)]"

definition demo_friction_only_joint :: "vec3 joint" where
  "demo_friction_only_joint =
     demo_joint ''J1'' REVOLUTE (demo_link 0 ''L0'' []) (demo_link 1 ''L1'' [])
       [(''friction'', PInt 3)]"

definition demo_bare_robot :: "vec3 robot" where
  "demo_bare_robot =
     \<lparr> robot_name = ''bare'', links = [demo_link 0 ''B0'' []], joints = [],
       base_link = demo_link 0 ''B0'' [] \<rparr>"

text \<open>
  A robot of four links: L1 and L3 are attached to the base link L0, and L2 to L1.
\<close>

definition demo_fork :: "vec3 robot" where
  "demo_fork =
     \<lparr> robot_name = ''fork'',
       links = [demo_link 0 ''L0'' [], demo_link 1 ''L1'' [], demo_link 2 ''L2'' [],
                demo_link 3 ''L3'' []],
       joints = [demo_joint ''J1'' REVOLUTE (demo_link 0 ''L0'' []) (demo_link 1 ''L1'' []) [],
                 (demo_joint ''J2'' REVOLUTE (demo_link 1 ''L1'' []) (demo_link 2 ''L2'' []) [])
                   \<lparr> T_world_joint := (1, 2, 0) \<rparr>,
                 (demo_joint ''J3'' PRISMATIC (demo_link 0 ''L0'' []) (demo_link 3 ''L3'' []) [])
                   \<lparr> T_world_joint := (0, 0, 3) \<rparr>],
       base_link = demo_link 0 ''L0'' [] \<rparr>"

section \<open>Properties\<close>

subsection \<open>Helper facts\<close>

lemma xml_append_line: "xml (append_line l s) = xml s @ [l]"
  by (simp add: append_line_def)

subsection \<open>Inertial nodes\<close>

text \<open>
  Claim C7. The inertial node add_inertial writes carries the position, the mass and the
  six independent entries of the inertia tensor in the order xx, yy, zz, xy, xz, yz,
  each written by the \<^verbatim>\<open>%.20g\<close> format. For the tensor with diagonal (1, 2, 3) and
  off-diagonal entries (0.1, 0.2, 0.3), mass 5 and centre of mass (0, 0, 0.1), the six
  values written are those of 1, 2, 3, 0.1, 0.2, 0.3, in this order.
\<close>

theorem add_inertial_order:
  \<open>xml (add_inertial env mass (cx, cy, cz)
          ((ixx, ixy, ixz), (iyx, iyy, iyz), (izx, izy, izz)) self)
    = xml self @
      [''<inertial pos="'' @ g20 env cx @ '' '' @ g20 env cy @ '' '' @ g20 env cz
       @ ''" mass="'' @ g20 env mass
       @ ''" fullinertia="'' @ g20 env ixx @ '' '' @ g20 env iyy @ '' '' @ g20 env izz
       @ '' '' @ g20 env ixy @ '' '' @ g20 env ixz @ '' '' @ g20 env iyz @ ''"  />'']
   \<and> xml (add_inertial env 5 (0, 0, 0.1)
          ((1, 0.1, 0.2), (0.1, 2, 0.3), (0.2, 0.3, 3)) self)
    = xml self @
      [''<inertial pos="'' @ g20 env 0 @ '' '' @ g20 env 0 @ '' '' @ g20 env 0.1
       @ ''" mass="'' @ g20 env 5
       @ ''" fullinertia="'' @ g20 env 1 @ '' '' @ g20 env 2 @ '' '' @ g20 env 3
       @ '' '' @ g20 env 0.1 @ '' '' @ g20 env 0.2 @ '' '' @ g20 env 0.3 @ ''"  />'']\<close>
  by (simp add: add_inertial_def mat_at_def xml_append_line)

subsection \<open>Primitive shapes\<close>

lemma add_shape_xml:
  assumes "mat_inv env T_world_link = Some T_link_world"
  shows "\<exists>self'. add_shape env part cls T_world_link shape self = Inr self'
           \<and> xml self' = xml self @ [shape_geom env part cls T_link_world shape]"
  using assms
  by (cases shape rule: size_params.cases)
     (simp_all add: add_shape_def shape_geom_def Let_def xml_append_line)

lemma for_each_add_shape_xml:
  assumes "mat_inv env T_world_link = Some T_link_world"
  shows "\<exists>self'. for_each (add_shape env part cls T_world_link) shs self = Inr self'
           \<and> xml self' = xml self @ map (shape_geom env part cls T_link_world) shs"
proof (induction shs arbitrary: self)
  case Nil
  show ?case by simp
next
  case (Cons shape shs)
  from add_shape_xml [OF assms, of part cls shape self]
  obtain s1 where s1: "add_shape env part cls T_world_link shape self = Inr s1"
      "xml s1 = xml self @ [shape_geom env part cls T_link_world shape]"
    by blast
  from Cons.IH [of s1] obtain s2 where
    "for_each (add_shape env part cls T_world_link) shs s1 = Inr s2"
    "xml s2 = xml s1 @ map (shape_geom env part cls T_link_world) shs"
    by blast
  with s1 show ?case by simp
qed

text \<open>
  Claim C9. When the part has a list of shapes and the transform of the link can be
  inverted, add_shapes appends one geometry node per shape, in order, and the size
  attribute of each holds the size parameters of the specification: the half-extents
  size/2 of a box, the radius and the half-length of a cylinder, the radius of a sphere.
  A box of size (2, 2, 2) gets the size attribute made of three times the text of 1.
\<close>

theorem add_shapes_half_extents:
  assumes "shapes part = Some shs"
    and "mat_inv env T_world_link = Some T_link_world"
  shows \<open>(\<exists>self'. add_shapes env part cls T_world_link self = Inr self'
             \<and> xml self' = xml self @ map (shape_geom env part cls T_link_world) shs)
         \<and> join_space (map (g20 env) (size_params (Box (2, 2, 2) T :: 'm shape)))
             = g20 env 1 @ '' '' @ g20 env 1 @ '' '' @ g20 env 1\<close>
  using for_each_add_shape_xml [OF assms(2), of part cls shs self] assms(1)
  by (simp add: add_shapes_def)

theorem add_shapes_half_extents_witness:
  \<open>shapes demo_box_part = Some [Box (2, 2, 2) (0, 0, 0)]
   \<and> mat_inv shift_env (0, 0, 0) = Some (0, 0, 0)
   \<and> (\<exists>self'. add_shapes shift_env demo_box_part ''collision'' (0, 0, 0) new_exporter = Inr self'
         \<and> xml self' =
             [''<geom class="collision" pos="1 2 3" quat="1 0 0 0" type="box" size="1 1 1"  />''])\<close>
  using add_shapes_half_extents [of demo_box_part "[Box (2, 2, 2) (0, 0, 0)]" shift_env
          "(0, 0, 0)" "(0, 0, 0)" "''collision''" new_exporter]
  by (simp add: demo_box_part_def shift_env_def new_exporter_def shape_geom_def pos_quat_def
        g20_whole_def str_int_def)

subsection \<open>Actuators\<close>









subsection \<open>Shapes-only mode\<close>

lemma add_mesh_xml:
  assumes "mesh_file part = Some path" "mat_inv env T = Some Ti"
  shows \<open>\<exists>self' node. add_mesh env part cls T self = Inr self'
           \<and> xml self' = xml self @ [''<!-- Mesh '' @ part_name part @ '' -->'',
                                      ''<geom type="mesh" class="'' @ cls @ ''" '' @ node]
           \<and> meshes self' = meshes self @ [basename path]
           \<and> collision_shapes_only self' = collision_shapes_only self
           \<and> draw_collisions self' = draw_collisions self\<close>
  using assms by (simp add: add_mesh_def Let_def append_line_def)

text \<open>
  Claim C1, as amended. In shapes-only mode, for a part that references a mesh and has no
  list of shapes, the loop body of add_link over the parts writes no geometry node of the
  collision class; it writes exactly one geometry node of the visual class, the mesh node,
  unless collision geometry is drawn as visual geometry (draw_collisions), in which case
  it writes none.
\<close>

theorem shapes_only_part:
  assumes "collision_shapes_only self" and "shapes part = None" and "has_mesh part"
    and "mat_inv env T = Some Ti"
  shows "\<exists>self'. add_part env T part self = Inr self'
           \<and> filter (geom_class ''collision'') (drop (length (xml self)) (xml self')) = []
           \<and> length (filter (geom_class ''visual'') (drop (length (xml self)) (xml self')))
               = (if draw_collisions self then 0 else 1)"
proof -
  from assms(3) obtain path where path: "mesh_file part = Some path"
    by (auto simp add: has_mesh_def split: option.splits)
  let ?s1 = "append_line (''<!-- Part '' @ part_name part @ '' -->'') self"
  have s1: "collision_shapes_only ?s1" "draw_collisions ?s1 = draw_collisions self"
    using assms(1) by (simp_all add: append_line_def)
  show ?thesis
  proof (cases "draw_collisions self")
    case True
    then show ?thesis
      using assms s1
      by (simp add: add_part_def add_geometries_def Let_def xml_append_line geom_class_def)
  next
    case False
    from add_mesh_xml [OF path assms(4), of "''visual''" ?s1]
    obtain s2 node where s2: "add_mesh env part ''visual'' T ?s1 = Inr s2"
        "xml s2 = xml ?s1 @ [''<!-- Mesh '' @ part_name part @ '' -->'',
                             ''<geom type=\"mesh\" class=\"'' @ ''visual'' @ ''\" '' @ node]"
        "collision_shapes_only s2 = collision_shapes_only ?s1"
      by blast
    then show ?thesis
      using False assms s1
      by (simp add: add_part_def add_geometries_def Let_def xml_append_line geom_class_def)
  qed
qed

theorem shapes_only_part_witness:
  \<open>collision_shapes_only (new_exporter\<lparr>collision_shapes_only := True\<rparr>)
   \<and> shapes demo_mesh_part = None \<and> has_mesh demo_mesh_part
   \<and> mat_inv shift_env (0, 0, 0) = Some (0, 0, 0)
   \<and> (\<exists>self'. add_part shift_env (0, 0, 0) demo_mesh_part
                  (new_exporter\<lparr>collision_shapes_only := True\<rparr>) = Inr self'
          \<and> filter (geom_class ''collision'') (xml self') = []
          \<and> length (filter (geom_class ''visual'') (xml self')) = 1)\<close>
  using shapes_only_part [of "new_exporter\<lparr>collision_shapes_only := True\<rparr>" demo_mesh_part
          shift_env "(0, 0, 0)" "(0, 0, 0)"]
  by (simp add: new_exporter_def demo_mesh_part_def has_mesh_def shift_env_def)

lemma init_shapes_only:
  "ExporterMuJoCo_init Map.empty (Some shapes_only_config) =
     Inr (new_exporter\<lparr>config := Some shapes_only_config, collision_shapes_only := True\<rparr>)"
  by (simp add: ExporterMuJoCo_init_def shapes_only_config_def new_exporter_def)

text \<open>
  The claim C1 as stated fails: an exporter configured for shapes-only mode, building a
  robot whose base link has one part with a mesh and no shapes, writes one geometry node
  of the visual class for that part.
\<close>

theorem shapes_only_visual_mesh_counterexample:
  \<open>ExporterMuJoCo_init Map.empty (Some shapes_only_config) =
     Inr (new_exporter\<lparr>config := Some shapes_only_config, collision_shapes_only := True\<rparr>)
   \<and> has_mesh demo_mesh_part \<and> shapes demo_mesh_part = None
   \<and> filter (geom_class ''visual'')
        (document_nodes (build shift_env 3 demo_mesh_robot
           (new_exporter\<lparr>config := Some shapes_only_config, collision_shapes_only := True\<rparr>)))
      = [''<geom type="mesh" class="visual" pos="1 2 3" quat="1 0 0 0" mesh="p1" material="p1_material"  />'']\<close>
  by (simp add: ExporterMuJoCo_init_def demo_mesh_part_def has_mesh_def document_nodes_def build_def
        build_head_def build_assets_def add_actuators_def demo_mesh_robot_def demo_link_def
        get_base_link_def get_link_joints_def numeral_3_eq_3 Let_def T_world_of_def
        shift_env_def new_exporter_def shapes_only_config_def append_line_def body_node_def
        pos_quat_def g20_whole_def str_int_def add_inertial_def mat_at_def add_part_def
        add_geometries_def add_mesh_def basename_def escape_char_def geom_class_def
        mesh_decl_def material_decl_def)

subsection \<open>The asset section\<close>

lemma fold_append_line_xml:
  "xml (fold (\<lambda>x. append_line (f x)) xs s) = xml s @ map f xs"
  by (induction xs arbitrary: s) (simp_all add: xml_append_line)

lemma fold_append_line_meshes:
  "meshes (fold (\<lambda>x. append_line (f x)) xs s) = meshes s"
  "materials (fold (\<lambda>x. append_line (f x)) xs s) = materials s"
  by (induction xs arbitrary: s) (simp_all add: append_line_def)

lemma build_assets_xml:
  \<open>xml (build_assets env self) =
     xml self @ [''<asset>''] @ map mesh_decl (set_iter env (meshes self))
     @ map (material_decl env) (materials self) @ [''</asset>'']\<close>
  by (simp add: build_assets_def Let_def xml_append_line fold_append_line_xml
        fold_append_line_meshes append_line_def)





lemma add_mesh_registers:
  assumes "add_mesh env part cls T self = Inr self'" and "mesh_file part = Some path"
  shows "meshes self' = meshes self @ [basename path]"
  using assms by (auto simp add: add_mesh_def Let_def append_line_def split: option.splits)

subsection \<open>Joints\<close>

text \<open>
  The pass-through loop of add_joint succeeds when the mapping has no "friction" key, or
  has a "frictionloss" key as well; a FIXED joint then gets the warning and a joint
  node of type free.
\<close>

lemma joint_keys_ok:
  assumes "props ''friction'' = None \<or> props ''frictionloss'' \<noteq> None"
  shows "\<exists>attrs. joint_keys env props keys acc = Inr (acc @ attrs)"
  using assms
proof (induction keys arbitrary: acc)
  case Nil
  show ?case by simp
next
  case (Cons key keys)
  show ?case
  proof (cases "props key")
    case None
    then show ?thesis using Cons.IH [OF Cons.prems, of acc] by simp
  next
    case (Some v)
    show ?thesis
    proof (cases "key = ''friction''")
      case True
      with Some Cons.prems obtain w where w: "props ''frictionloss'' = Some w" by auto
      from Cons.IH [OF Cons.prems, of "acc @ ''frictionloss'' @ ''=\"'' @ py_format env w @ ''\" ''"]
      obtain attrs where
        "joint_keys env props keys (acc @ ''frictionloss'' @ ''=\"'' @ py_format env w @ ''\" '')
          = Inr ((acc @ ''frictionloss'' @ ''=\"'' @ py_format env w @ ''\" '') @ attrs)"
        by blast
      then show ?thesis using True Some w by simp
    next
      case False
      from Cons.IH [OF Cons.prems, of "acc @ key @ ''=\"'' @ py_format env v @ ''\" ''"]
      obtain attrs where
        "joint_keys env props keys (acc @ key @ ''=\"'' @ py_format env v @ ''\" '')
          = Inr ((acc @ key @ ''=\"'' @ py_format env v @ ''\" '') @ attrs)"
        by blast
      then show ?thesis using False Some by simp
    qed
  qed
qed

lemma add_joint_fixed:
  assumes "joint_type joint = FIXED"
    and "properties joint ''friction'' = None \<or> properties joint ''frictionloss'' \<noteq> None"
  shows \<open>\<exists>self' attrs. add_joint env joint self = Inr self'
           \<and> warnings self' = warnings self @ [''Joint type is not supported in MuJoCo: fixed'']
           \<and> xml self' = xml self
               @ [''<!-- Joint from '' @ link_name (parent joint) @ '' to ''
                  @ link_name (child joint) @ '' -->'',
                  ''<joint name="'' @ joint_name joint @ ''" type="free" '' @ attrs @ '' />'']\<close>
proof -
  from joint_keys_ok [OF assms(2)] obtain attrs where
    "joint_keys env (properties joint)
       [''class'', ''friction'', ''frictionloss'', ''armature'', ''damping'', ''stiffness'']
       (''<joint '' @ ''name=\"'' @ joint_name joint @ ''\" '' @ ''type=\"free\" '')
     = Inr ((''<joint '' @ ''name=\"'' @ joint_name joint @ ''\" '' @ ''type=\"free\" '') @ attrs)"
    by blast
  then show ?thesis
    using assms(1) by (simp add: add_joint_def Let_def append_line_def del: joint_keys.simps)
qed

text \<open>
  Claim C3 fails on the code at a FIXED joint whose properties hold "friction" and no
  "frictionloss": add_joint raises KeyError, which ends the export.
\<close>

theorem fixed_joint_friction_aborts:
  "joint_type demo_fixed_joint = FIXED
   \<and> add_joint shift_env demo_fixed_joint new_exporter = Inl (KeyError ''frictionloss'')"
  by (simp add: demo_fixed_joint_def demo_joint_def add_joint_def Let_def)

text \<open>
  Claim C10 fails on the code. With "friction" 3 and "frictionloss" 7 the joint node
  carries frictionloss twice, both times with the value 7 of "frictionloss": the value of
  "friction" is not written. With "friction" alone, add_joint raises KeyError.
\<close>

theorem friction_value_not_carried:
  \<open>properties demo_friction_joint ''friction'' = Some (PInt 3)
   \<and> properties demo_friction_joint ''frictionloss'' = Some (PInt 7)
   \<and> map_sum id xml (add_joint shift_env demo_friction_joint new_exporter)
       = Inr [''<!-- Joint from L0 to L1 -->'',
              ''<joint name="J1" type="hinge" frictionloss="7" frictionloss="7"  />'']
   \<and> properties demo_friction_only_joint ''frictionloss'' = None
   \<and> add_joint shift_env demo_friction_only_joint new_exporter
       = Inl (KeyError ''frictionloss'')\<close>
  by (simp add: demo_friction_joint_def demo_friction_only_joint_def demo_joint_def
        demo_link_def add_joint_def Let_def append_line_def new_exporter_def str_int_def)

subsection \<open>Successive calls of build\<close>

text \<open>
  Claim C2 fails on the code. A new exporter builds a robot whose part references the mesh
  p1.stl, then a robot with no part and no joint: the asset section of the second
  document declares the mesh and the material registered during the first call.
\<close>

theorem second_build_keeps_first_assets:
  \<open>parts (base_link demo_bare_robot) = [] \<and> joints demo_bare_robot = []
   \<and> dropWhile (\<lambda>node. node \<noteq> ''<asset>'')
        (document_nodes
           (then_build shift_env 3 demo_bare_robot
              (build shift_env 3 demo_mesh_robot new_exporter)))
      = [''<asset>'',
         ''<mesh file="p1.stl" />'',
         ''<material name="p1_material" rgba="1 0 0 1" />'',
         ''</asset>'', ''<actuator>'', ''</actuator>'', ''</mujoco>'']\<close>
  by (simp add: demo_mesh_part_def document_nodes_def then_build_def build_def
        build_head_def build_assets_def add_actuators_def demo_mesh_robot_def
        demo_bare_robot_def demo_link_def
        get_base_link_def get_link_joints_def numeral_3_eq_3 Let_def T_world_of_def
        shift_env_def new_exporter_def append_line_def body_node_def
        pos_quat_def g20_whole_def str_int_def add_inertial_def mat_at_def add_part_def
        add_geometries_def add_mesh_def has_mesh_def basename_def escape_char_def
        mesh_decl_def material_decl_def)

subsection \<open>Registration of meshes during build\<close>

lemma sum_bind_Inr:
  "(case x of Inl e \<Rightarrow> Inl e | Inr v \<Rightarrow> f v) = Inr r \<longleftrightarrow> (\<exists>v. x = Inr v \<and> f v = Inr r)"
  by (cases x) auto

lemma option_bind_Inr:
  "(case x of None \<Rightarrow> Inl e | Some v \<Rightarrow> f v) = Inr r \<longleftrightarrow> (\<exists>v. x = Some v \<and> f v = Inr r)"
  by (cases x) auto

lemma append_line_modes:
  "draw_collisions (append_line l s) = draw_collisions s"
  "collision_shapes_only (append_line l s) = collision_shapes_only s"
  "meshes (append_line l s) = meshes s"
  by (simp_all add: append_line_def)

lemma add_part_Inr:
  \<open>add_part env T part s = Inr s' \<longleftrightarrow>
     (\<exists>s2. add_geometries env part T ''visual''
             (if draw_collisions s then ''collision'' else ''visual'')
             (append_line (''<!-- Part '' @ part_name part @ '' -->'') s) = Inr s2
         \<and> add_geometries env part T ''collision'' ''collision'' s2 = Inr s')\<close>
  unfolding add_part_def Let_def sum_bind_Inr append_line_modes ..

lemma add_link_Suc_Inr:
  \<open>add_link env (Suc n) robot link parent_joint T_world_parent s = Inr s' \<longleftrightarrow>
     (\<exists>Tpw. mat_inv env T_world_parent = Some Tpw \<and>
       (\<exists>s3. (case parent_joint of
                None \<Rightarrow> Inr (append_line ''<freejoint name="root" />''
                         (append_line (body_node env link
                                         (mat_mul env Tpw (T_world_of env parent_joint)))
                            (append_line (''<!-- Link '' @ link_name link @ '' -->'') s)))
              | Some joint \<Rightarrow> add_joint env joint
                         (append_line (body_node env link
                                         (mat_mul env Tpw (T_world_of env parent_joint)))
                            (append_line (''<!-- Link '' @ link_name link @ '' -->'') s)))
              = Inr s3 \<and>
         (\<exists>s5. for_each (add_part env (T_world_of env parent_joint)) (parts link)
                  (add_inertial env
                     (fst (get_dynamics link (T_world_of env parent_joint)))
                     (fst (snd (get_dynamics link (T_world_of env parent_joint))))
                     (snd (snd (get_dynamics link (T_world_of env parent_joint)))) s3)
                = Inr s5 \<and>
           (\<exists>s6. for_each (\<lambda>(frame, T_world_frame).
                             add_frame env link frame (T_world_of env parent_joint) T_world_frame)
                    (frames link) s5 = Inr s6 \<and>
             (\<exists>s7. for_each (\<lambda>joint. add_link env n robot (child joint) (Some joint)
                                       (T_world_of env parent_joint))
                      (get_link_joints robot link) s6 = Inr s7 \<and>
                   Inr (append_line ''</body>'' s7) = (Inr s' :: error + exporter))))))\<close>
  unfolding add_link.simps Let_def option_bind_Inr sum_bind_Inr case_prod_beta ..



lemma registers_append_line: "registers s (append_line l s) []"
  by (simp add: registers_def append_line_def)














lemma takeWhile_until:
  "\<forall>x \<in> set xs. P x \<Longrightarrow> \<not> P y \<Longrightarrow> takeWhile P (xs @ y # ys) = xs"
  by (induction xs) auto








lemma build_Inr:
  "build env depth robot self = Inr (text, self') \<longleftrightarrow>
     (\<exists>body. add_link env depth robot (get_base_link robot) None (eye4 env)
               (build_head robot self) = Inr body
         \<and> Inr (concat (xml (append_line ''</mujoco>''
                   (add_actuators env robot
                      (build_assets env (append_line ''</worldbody>'' body))))),
               append_line ''</mujoco>''
                   (add_actuators env robot
                      (build_assets env (append_line ''</worldbody>'' body))))
             = (Inr (text, self') :: error + string \<times> exporter))"
  unfolding build_def Let_def sum_bind_Inr ..





subsection \<open>Trees\<close>













subsection \<open>The walk over a tree\<close>










subsection \<open>Scanning the fragments\<close>

lemma world_body_eq: "world_body env incoming = T_world_of env incoming"
  by (simp add: world_body_def T_world_of_def)

lemma pose_attributes_eq: "pose_attributes env T = pos_quat env T"
  by (simp add: pose_attributes_def pos_quat_def split: prod.splits)

lemma depth_after_append:
  "depth_after d (xs @ ys) = depth_after (depth_after d xs) ys"
  by (induction xs arbitrary: d) simp_all

lemma bodies_append:
  "bodies d (xs @ ys) = bodies d xs @ bodies (depth_after d xs) ys"
  by (induction xs arbitrary: d) simp_all

lemma bodies_filter: "map fst (bodies d xs) = filter (prefix ''<body '') xs"
  by (induction xs arbitrary: d) simp_all

lemma plain_scan:
  "list_all plain xs \<Longrightarrow> bodies d xs = [] \<and> depth_after d xs = d"
  by (induction xs) (simp_all add: plain_def)

lemma plain_not_worldbody:
  "list_all plain xs \<Longrightarrow> list_all (\<lambda>x. x \<noteq> ''<worldbody>'' \<and> x \<noteq> ''</worldbody>'') xs"
  by (induction xs) (simp_all add: plain_def)

lemma appends_plain_refl: "appends_plain s s"
  by (simp add: appends_plain_def)

lemma appends_plain_trans:
  "appends_plain s s1 \<Longrightarrow> appends_plain s1 s2 \<Longrightarrow> appends_plain s s2"
  by (auto simp add: appends_plain_def)

lemma appends_plain_line: "plain l \<Longrightarrow> appends_plain s (append_line l s)"
  by (simp add: appends_plain_def xml_append_line)

lemma for_each_plain:
  assumes "\<And>x s s'. body x s = Inr s' \<Longrightarrow> appends_plain s s'"
    and "for_each body xs s = Inr s'"
  shows "appends_plain s s'"
  using assms(2)
proof (induction xs arbitrary: s)
  case Nil
  then show ?case by (simp add: appends_plain_refl)
next
  case (Cons x xs)
  from Cons.prems obtain s1 where s1: "body x s = Inr s1" "for_each body xs s1 = Inr s'"
    by (auto split: sum.splits)
  from appends_plain_trans [OF assms(1) [OF s1(1)] Cons.IH [OF s1(2)]] show ?case .
qed

subsection \<open>The fragments of the emitters\<close>

lemma joint_keys_extends:
  "joint_keys env props keys acc = Inr r \<Longrightarrow> \<exists>attrs. r = acc @ attrs"
proof (induction keys arbitrary: acc)
  case Nil
  then show ?case by simp
next
  case (Cons key keys)
  show ?case
  proof (cases "props key")
    case None
    with Cons.prems have "joint_keys env props keys acc = Inr r" by simp
    from Cons.IH [OF this] show ?thesis .
  next
    case (Some v)
    let ?key1 = "if key = ''friction'' then ''frictionloss'' else key"
    from Some Cons.prems obtain w where
      "joint_keys env props keys (acc @ ?key1 @ ''=\"'' @ py_format env w @ ''\" '') = Inr r"
      by (auto simp add: Let_def split: option.splits if_splits)
    from Cons.IH [OF this] obtain attrs where
      "r = (acc @ ?key1 @ ''=\"'' @ py_format env w @ ''\" '') @ attrs" ..
    then have "r = acc @ (?key1 @ ''=\"'' @ py_format env w @ ''\" '' @ attrs)" by simp
    then show ?thesis ..
  qed
qed

lemma plain_joint: "prefix ''<joint '' x \<Longrightarrow> plain x"
  by (auto simp add: plain_def prefix_def)

lemma add_joint_Inr:
  \<open>add_joint env joint s = Inr s' \<longleftrightarrow>
     (\<exists>r. joint_keys env (properties joint)
             [''class'', ''friction'', ''frictionloss'', ''armature'', ''damping'', ''stiffness'']
             (fst (case joint_type joint of
                REVOLUTE \<Rightarrow> ((''<joint '' @ ''name="'' @ joint_name joint @ ''" '') @ ''type="hinge" '',
                   append_line (''<!-- Joint from '' @ link_name (parent joint) @ '' to ''
                              @ link_name (child joint) @ '' -->'') s)
              | PRISMATIC \<Rightarrow> ((''<joint '' @ ''name="'' @ joint_name joint @ ''" '') @ ''type="slide" '',
                   append_line (''<!-- Joint from '' @ link_name (parent joint) @ '' to ''
                              @ link_name (child joint) @ '' -->'') s)
              | FIXED \<Rightarrow> ((''<joint '' @ ''name="'' @ joint_name joint @ ''" '') @ ''type="free" '',
                   (append_line (''<!-- Joint from '' @ link_name (parent joint) @ '' to ''
                              @ link_name (child joint) @ '' -->'') s)
                   \<lparr> warnings := warnings (append_line (''<!-- Joint from ''
                              @ link_name (parent joint) @ '' to ''
                              @ link_name (child joint) @ '' -->'') s)
                        @ [''Joint type is not supported in MuJoCo: fixed''] \<rparr>)
              | OTHER_JOINT_TYPE \<Rightarrow> (''<joint '' @ ''name="'' @ joint_name joint @ ''" '',
                   append_line (''<!-- Joint from '' @ link_name (parent joint) @ '' to ''
                              @ link_name (child joint) @ '' -->'') s))) = Inr r
        \<and> Inr (append_line (r @ '' />'')
             (snd (case joint_type joint of
                REVOLUTE \<Rightarrow> ((''<joint '' @ ''name="'' @ joint_name joint @ ''" '') @ ''type="hinge" '',
                   append_line (''<!-- Joint from '' @ link_name (parent joint) @ '' to ''
                              @ link_name (child joint) @ '' -->'') s)
              | PRISMATIC \<Rightarrow> ((''<joint '' @ ''name="'' @ joint_name joint @ ''" '') @ ''type="slide" '',
                   append_line (''<!-- Joint from '' @ link_name (parent joint) @ '' to ''
                              @ link_name (child joint) @ '' -->'') s)
              | FIXED \<Rightarrow> ((''<joint '' @ ''name="'' @ joint_name joint @ ''" '') @ ''type="free" '',
                   (append_line (''<!-- Joint from '' @ link_name (parent joint) @ '' to ''
                              @ link_name (child joint) @ '' -->'') s)
                   \<lparr> warnings := warnings (append_line (''<!-- Joint from ''
                              @ link_name (parent joint) @ '' to ''
                              @ link_name (child joint) @ '' -->'') s)
                        @ [''Joint type is not supported in MuJoCo: fixed''] \<rparr>)
              | OTHER_JOINT_TYPE \<Rightarrow> (''<joint '' @ ''name="'' @ joint_name joint @ ''" '',
                   append_line (''<!-- Joint from '' @ link_name (parent joint) @ '' to ''
                              @ link_name (child joint) @ '' -->'') s))))
            = (Inr s' :: error + exporter))\<close>
  unfolding add_joint_def Let_def case_prod_beta sum_bind_Inr ..

text \<open>What add_joint has written before the pass-through loop, for each type of joint.\<close>

lemma add_joint_start:
  \<open>prefix ''<joint ''
     (fst (case jt of
        REVOLUTE \<Rightarrow> ((''<joint '' @ a) @ b1, s1)
      | PRISMATIC \<Rightarrow> ((''<joint '' @ a) @ b2, s1)
      | FIXED \<Rightarrow> ((''<joint '' @ a) @ b3, s1\<lparr> warnings := w \<rparr>)
      | OTHER_JOINT_TYPE \<Rightarrow> (''<joint '' @ a, s1)))\<close>
  \<open>xml (snd (case jt of
        REVOLUTE \<Rightarrow> (x1, s1)
      | PRISMATIC \<Rightarrow> (x2, s1)
      | FIXED \<Rightarrow> (x3, s1\<lparr> warnings := w \<rparr>)
      | OTHER_JOINT_TYPE \<Rightarrow> (x4, s1))) = xml s1\<close>
  by (cases jt; simp)+

lemma add_joint_plain:
  assumes "add_joint env joint s = Inr s'"
  shows "appends_plain s s'"
proof -
  let ?c = "''<!-- Joint from '' @ link_name (parent joint) @ '' to ''
            @ link_name (child joint) @ '' -->''"
  let ?n = "''name=\"'' @ joint_name joint @ ''\" ''"
  let ?P = "case joint_type joint of
              REVOLUTE \<Rightarrow> ((''<joint '' @ ?n) @ ''type=\"hinge\" '', append_line ?c s)
            | PRISMATIC \<Rightarrow> ((''<joint '' @ ?n) @ ''type=\"slide\" '', append_line ?c s)
            | FIXED \<Rightarrow> ((''<joint '' @ ?n) @ ''type=\"free\" '',
                 (append_line ?c s)\<lparr> warnings := warnings (append_line ?c s)
                        @ [''Joint type is not supported in MuJoCo: fixed''] \<rparr>)
            | OTHER_JOINT_TYPE \<Rightarrow> (''<joint '' @ ?n, append_line ?c s)"
  from assms [unfolded add_joint_Inr] obtain r where
    rs: "joint_keys env (properties joint)
          [''class'', ''friction'', ''frictionloss'', ''armature'', ''damping'', ''stiffness'']
          (fst ?P) = Inr r
        \<and> Inr (append_line (r @ '' />'') (snd ?P)) = (Inr s' :: error + exporter)" ..
  have acc: "prefix ''<joint '' (fst ?P)" by (rule add_joint_start(1))
  have s2: "xml (snd ?P) = xml (append_line ?c s)" by (rule add_joint_start(2))
  from joint_keys_extends [OF conjunct1 [OF rs]] obtain attrs where "r = fst ?P @ attrs" ..
  with acc have "prefix ''<joint '' (r @ '' />'')"
    by (simp only: append_assoc prefix_prefix)
  then have p1: "plain (r @ '' />'')" by (rule plain_joint)
  have p2: "plain ?c" by (simp add: plain_def)
  from conjunct2 [OF rs] have e: "s' = append_line (r @ '' />'') (snd ?P)"
    by (simp only: sum.inject)
  have x: "xml s' = xml s @ [?c, r @ '' />'']"
    unfolding e xml_append_line s2 by simp
  have "list_all plain [?c, r @ '' />'']"
    using p1 p2 by simp
  with x show ?thesis unfolding appends_plain_def by blast
qed

lemma add_inertial_plain: "appends_plain s (add_inertial env mass com inertia s)"
  by (simp add: add_inertial_def Let_def appends_plain_def xml_append_line plain_def)

lemma add_frame_plain:
  "add_frame env link frame T Tf s = Inr s' \<Longrightarrow> appends_plain s s'"
  by (auto simp add: add_frame_def Let_def appends_plain_def xml_append_line plain_def
        split: option.splits)

lemma add_shape_plain:
  "add_shape env part cls T shape s = Inr s' \<Longrightarrow> appends_plain s s'"
  by (auto simp add: add_shape_def Let_def appends_plain_def append_line_def plain_def
        split: option.splits if_splits)

lemma add_shapes_plain:
  "add_shapes env part cls T s = Inr s' \<Longrightarrow> appends_plain s s'"
  by (cases "shapes part")
     (auto simp add: add_shapes_def intro: for_each_plain add_shape_plain)

lemma add_mesh_plain:
  "add_mesh env part cls T s = Inr s' \<Longrightarrow> appends_plain s s'"
  by (auto simp add: add_mesh_def Let_def appends_plain_def append_line_def plain_def
        split: option.splits)

lemma add_geometries_plain:
  "add_geometries env part T cls what s = Inr s' \<Longrightarrow> appends_plain s s'"
  by (auto simp add: add_geometries_def appends_plain_refl
        dest: add_shapes_plain add_mesh_plain split: if_splits)

lemma add_part_plain:
  assumes "add_part env T part s = Inr s'"
  shows "appends_plain s s'"
proof -
  from assms [unfolded add_part_Inr] obtain s2 where
    s2: "add_geometries env part T ''visual''
           (if draw_collisions s then ''collision'' else ''visual'')
           (append_line (''<!-- Part '' @ part_name part @ '' -->'') s) = Inr s2"
    and s': "add_geometries env part T ''collision'' ''collision'' s2 = Inr s'"
    by blast
  have "plain (''<!-- Part '' @ part_name part @ '' -->'')" by (simp add: plain_def)
  from appends_plain_trans [OF appends_plain_line [OF this]
         appends_plain_trans [OF add_geometries_plain [OF s2] add_geometries_plain [OF s']]]
  show ?thesis .
qed

subsection \<open>The bodies add_link writes\<close>

lemma traces_plain_before:
  assumes "appends_plain s s1" and "traces env d s1 s2 vs"
  shows "traces env d s s2 vs"
proof -
  from assms obtain a b where a: "xml s1 = xml s @ a" "list_all plain a"
    and b: "xml s2 = xml s1 @ b" "map Some (bodies d b) = map (body_entry env) vs"
      "depth_after d b = d" "list_all (\<lambda>x. x \<noteq> ''<worldbody>'' \<and> x \<noteq> ''</worldbody>'') b"
    by (auto simp add: appends_plain_def traces_def)
  from a b plain_scan [OF a(2), of d] plain_not_worldbody [OF a(2)]
  have "xml s2 = xml s @ (a @ b) \<and> map Some (bodies d (a @ b)) = map (body_entry env) vs
        \<and> depth_after d (a @ b) = d
        \<and> list_all (\<lambda>x. x \<noteq> ''<worldbody>'' \<and> x \<noteq> ''</worldbody>'') (a @ b)"
    by (simp add: bodies_append depth_after_append)
  then show ?thesis unfolding traces_def by blast
qed

lemma traces_Nil: "traces env d s s []"
  by (simp add: traces_def)

lemma traces_append:
  assumes "traces env d s s1 vs" and "traces env d s1 s2 ws"
  shows "traces env d s s2 (vs @ ws)"
proof -
  from assms obtain a b where
    a: "xml s1 = xml s @ a" "map Some (bodies d a) = map (body_entry env) vs"
      "depth_after d a = d" "list_all (\<lambda>x. x \<noteq> ''<worldbody>'' \<and> x \<noteq> ''</worldbody>'') a"
    and b: "xml s2 = xml s1 @ b" "map Some (bodies d b) = map (body_entry env) ws"
      "depth_after d b = d" "list_all (\<lambda>x. x \<noteq> ''<worldbody>'' \<and> x \<noteq> ''</worldbody>'') b"
    by (auto simp add: traces_def)
  then have "xml s2 = xml s @ (a @ b)
        \<and> map Some (bodies d (a @ b)) = map (body_entry env) (vs @ ws)
        \<and> depth_after d (a @ b) = d
        \<and> list_all (\<lambda>x. x \<noteq> ''<worldbody>'' \<and> x \<noteq> ''</worldbody>'') (a @ b)"
    by (simp add: bodies_append depth_after_append)
  then show ?thesis unfolding traces_def by blast
qed

lemma for_each_traces:
  assumes "\<And>x s s'. x \<in> set xs \<Longrightarrow> body x s = Inr s' \<Longrightarrow> traces env d s s' (f x)"
    and "for_each body xs s = Inr s'"
  shows "traces env d s s' (concat (map f xs))"
  using assms
proof (induction xs arbitrary: s)
  case Nil
  then show ?case by (simp add: traces_Nil)
next
  case (Cons x xs)
  from Cons.prems(2) obtain s1 where
    s1: "body x s = Inr s1" "for_each body xs s1 = Inr s'"
    by (auto split: sum.splits)
  have "traces env d s s1 (f x)" using Cons.prems(1) s1(1) by simp
  moreover have "traces env d s1 s' (concat (map f xs))"
    using Cons.IH [of s1] Cons.prems(1) s1(2) by simp
  ultimately show ?case using traces_append by fastforce
qed

lemma body_node_entry:
  assumes "mat_inv env T_world_parent = Some Tpw"
  shows "body_entry env \<lparr> v_link = link, v_joint = incoming, v_parent_T = T_world_parent,
                           v_depth = d \<rparr>
         = Some (body_node env link (mat_mul env Tpw (T_world_of env incoming)), d)"
  using assms
  by (simp add: body_entry_def body_element_def body_pose_def body_node_def world_body_eq
        pose_attributes_eq)

lemma body_node_prefix: "prefix ''<body '' (body_node env link T)"
  by (simp add: body_node_def)

lemma body_node_not_worldbody:
  "body_node env link T \<noteq> ''<worldbody>''" "body_node env link T \<noteq> ''</worldbody>''"
  by (simp_all add: body_node_def)

text \<open>One body wrapped around fragments that leave the bodies inside it closed.\<close>

lemma traces_body:
  assumes "xml s' = xml s @ [c, b] @ inner @ [''</body>'']"
    and "plain c" and "prefix ''<body '' b" and "b \<noteq> ''<worldbody>''" and "b \<noteq> ''</worldbody>''"
    and "body_entry env v = Some (b, d)"
    and "map Some (bodies (Suc d) inner) = map (body_entry env) vs"
    and "depth_after (Suc d) inner = Suc d"
    and "list_all (\<lambda>x. x \<noteq> ''<worldbody>'' \<and> x \<noteq> ''</worldbody>'') inner"
  shows "traces env d s s' (v # vs)"
proof -
  let ?new = "[c, b] @ inner @ [''</body>'']"
  from assms(2) have c: "\<not> prefix ''<body '' c" "c \<noteq> ''</body>''"
      "c \<noteq> ''<worldbody>''" "c \<noteq> ''</worldbody>''"
    by (simp_all add: plain_def)
  from assms(3) have b: "b \<noteq> ''</body>''" by auto
  have "bodies d ?new = (b, d) # bodies (Suc d) (inner @ [''</body>''])"
    using c assms(3) by simp
  also have "bodies (Suc d) (inner @ [''</body>'']) = bodies (Suc d) inner"
    by (simp add: bodies_append)
  finally have 1: "map Some (bodies d ?new) = map (body_entry env) (v # vs)"
    using assms(6,7) by simp
  have "depth_after d ?new = depth_after (Suc d) (inner @ [''</body>''])"
    using c assms(3) by simp
  then have 2: "depth_after d ?new = d"
    using assms(8) by (simp add: depth_after_append)
  have 3: "list_all (\<lambda>x. x \<noteq> ''<worldbody>'' \<and> x \<noteq> ''</worldbody>'') ?new"
    using c assms(4,5,9) by simp
  from assms(1) 1 2 3 show ?thesis unfolding traces_def by blast
qed

lemma add_link_traces:
  assumes "add_link env n robot link incoming T_world_parent s = Inr s'"
  shows "traces env d s s' (walk env n robot link incoming T_world_parent d)"
  using assms
proof (induction n arbitrary: link incoming T_world_parent s s' d)
  case 0
  then show ?case by simp
next
  case (Suc n)
  let ?T = "T_world_of env incoming"
  let ?c = "''<!-- Link '' @ link_name link @ '' -->''"
  from Suc.prems [unfolded add_link_Suc_Inr] obtain Tpw s3 s5 s6 s7 where
    Tpw: "mat_inv env T_world_parent = Some Tpw"
    and s3: "(case incoming of
            None \<Rightarrow> Inr (append_line ''<freejoint name=\"root\" />''
                     (append_line (body_node env link (mat_mul env Tpw ?T))
                        (append_line ?c s)))
          | Some joint \<Rightarrow> add_joint env joint
                     (append_line (body_node env link (mat_mul env Tpw ?T))
                        (append_line ?c s)))
          = Inr s3"
    and s5: "for_each (add_part env ?T) (parts link)
               (add_inertial env (fst (get_dynamics link ?T)) (fst (snd (get_dynamics link ?T)))
                  (snd (snd (get_dynamics link ?T))) s3) = Inr s5"
    and s6: "for_each (\<lambda>(frame, T_world_frame). add_frame env link frame ?T T_world_frame)
               (frames link) s5 = Inr s6"
    and s7: "for_each (\<lambda>joint. add_link env n robot (child joint) (Some joint) ?T)
               (get_link_joints robot link) s6 = Inr s7"
    and s': "Inr (append_line ''</body>'' s7) = (Inr s' :: error + exporter)"
    by blast
  let ?b = "body_node env link (mat_mul env Tpw ?T)"
  let ?s2 = "append_line ?b (append_line ?c s)"
  let ?s4 = "add_inertial env (fst (get_dynamics link ?T)) (fst (snd (get_dynamics link ?T)))
                  (snd (snd (get_dynamics link ?T))) s3"
  let ?sub = "\<lambda>joint. walk env n robot (child joint) (Some joint) ?T (Suc d)"
  have p3: "appends_plain ?s2 s3"
  proof (cases incoming)
    case None
    with s3 have "s3 = append_line ''<freejoint name=\"root\" />'' ?s2" by simp
    then show ?thesis by (simp add: appends_plain_def xml_append_line plain_def)
  next
    case (Some joint)
    with s3 have "add_joint env joint ?s2 = Inr s3" by simp
    then show ?thesis by (rule add_joint_plain)
  qed
  have p5: "appends_plain ?s4 s5"
    by (rule for_each_plain [OF add_part_plain s5])
  have p6: "appends_plain s5 s6"
    by (rule for_each_plain [OF _ s6]) (auto dest: add_frame_plain)
  from appends_plain_trans [OF p3 appends_plain_trans [OF add_inertial_plain
         appends_plain_trans [OF p5 p6]]]
  have "appends_plain ?s2 s6" .
  moreover have "traces env (Suc d) s6 s7 (concat (map ?sub (get_link_joints robot link)))"
    by (rule for_each_traces [OF _ s7]) (rule Suc.IH)
  ultimately have "traces env (Suc d) ?s2 s7 (concat (map ?sub (get_link_joints robot link)))"
    by (rule traces_plain_before)
  then obtain inner where inner: "xml s7 = xml ?s2 @ inner"
      "map Some (bodies (Suc d) inner)
         = map (body_entry env) (concat (map ?sub (get_link_joints robot link)))"
      "depth_after (Suc d) inner = Suc d"
      "list_all (\<lambda>x. x \<noteq> ''<worldbody>'' \<and> x \<noteq> ''</worldbody>'') inner"
    unfolding traces_def by blast
  from s' have "s' = append_line ''</body>'' s7" by simp
  with inner(1) have x: "xml s' = xml s @ [?c, ?b] @ inner @ [''</body>'']"
    by (simp add: xml_append_line)
  have c: "plain ?c" by (simp add: plain_def)
  have "traces env d s s'
          (\<lparr> v_link = link, v_joint = incoming, v_parent_T = T_world_parent, v_depth = d \<rparr>
           # concat (map ?sub (get_link_joints robot link)))"
    by (rule traces_body [OF x c body_node_prefix body_node_not_worldbody
          body_node_entry [OF Tpw] inner(2,3,4)])
  then show ?case by (simp add: world_body_eq)
qed

subsection \<open>The recursion allowance\<close>












subsection \<open>The cases in which add_link returns\<close>











subsection \<open>The worldbody element of the document\<close>

lemma worldbody_section_found:
  assumes "\<forall>x \<in> set ms. x \<noteq> ''</worldbody>'' \<and> x \<noteq> ''<worldbody>''"
    and "\<forall>x \<in> set after. x \<noteq> ''<worldbody>''"
  shows "worldbody_section (before @ [''<worldbody>''] @ ms @ [''</worldbody>''] @ after) = ms"
proof -
  have "takeWhile (\<lambda>node. node \<noteq> ''<worldbody>'')
          (rev (before @ [''<worldbody>''] @ ms @ [''</worldbody>''] @ after))
        = rev after @ [''</worldbody>''] @ rev ms"
  proof -
    have "\<forall>x \<in> set (rev after @ [''</worldbody>''] @ rev ms). x \<noteq> ''<worldbody>''"
      using assms by auto
    from takeWhile_until [of _ "\<lambda>node. node \<noteq> ''<worldbody>''", OF this,
           of "''<worldbody>''" "rev before"]
    show ?thesis by simp
  qed
  moreover have "takeWhile (\<lambda>node. node \<noteq> ''</worldbody>'')
                   (rev (rev after @ [''</worldbody>''] @ rev ms)) = ms"
    using assms(1)
      takeWhile_until [of ms "\<lambda>node. node \<noteq> ''</worldbody>''" "''</worldbody>''" after]
    by simp
  ultimately show ?thesis
    by (simp add: worldbody_section_def)
qed

lemma not_worldbody_tag: "a @ ''/>'' \<noteq> ''<worldbody>''"
proof
  assume "a @ ''/>'' = ''<worldbody>''"
  then have "rev (a @ ''/>'') = rev ''<worldbody>''" by (rule arg_cong)
  then show False by simp
qed

lemma add_actuator_after:
  "\<exists>new. xml (add_actuator env joint s) = xml s @ new
      \<and> (\<forall>x \<in> set new. x \<noteq> ''<worldbody>'')"
proof (cases "truthy (dict_get (properties joint) ''actuated'' (PBool True))")
  case False
  then show ?thesis by (simp add: add_actuator_def)
next
  case True
  have "\<exists>a. add_actuator env joint s = append_line (a @ ''/>'') s"
    unfolding add_actuator_def Let_def if_P [OF True] by blast
  then obtain a where "add_actuator env joint s = append_line (a @ ''/>'') s" ..
  then have "xml (add_actuator env joint s) = xml s @ [a @ ''/>'']"
    by (simp add: append_line_def)
  with not_worldbody_tag [of a] show ?thesis by simp
qed

lemma fold_add_actuator_after:
  "\<exists>new. xml (fold (add_actuator env) js s) = xml s @ new
      \<and> (\<forall>x \<in> set new. x \<noteq> ''<worldbody>'')"
proof (induction js arbitrary: s)
  case Nil
  show ?case by simp
next
  case (Cons j js)
  from add_actuator_after [of env j s] obtain n1 where
    n1: "xml (add_actuator env j s) = xml s @ n1" "\<forall>x \<in> set n1. x \<noteq> ''<worldbody>''"
    by blast
  from Cons.IH [of "add_actuator env j s"] obtain n2 where
    n2: "xml (fold (add_actuator env) js (add_actuator env j s))
           = xml (add_actuator env j s) @ n2"
      "\<forall>x \<in> set n2. x \<noteq> ''<worldbody>''"
    by blast
  from n1 n2 have "xml (fold (add_actuator env) (j # js) s) = xml s @ (n1 @ n2)
      \<and> (\<forall>x \<in> set (n1 @ n2). x \<noteq> ''<worldbody>'')"
    by auto
  then show ?case by blast
qed

lemma add_actuators_after:
  "\<exists>new. xml (add_actuators env robot s) = xml s @ new
      \<and> (\<forall>x \<in> set new. x \<noteq> ''<worldbody>'')"
proof -
  from fold_add_actuator_after [of env "joints robot" "append_line ''<actuator>'' s"]
  obtain new where
    new: "xml (fold (add_actuator env) (joints robot) (append_line ''<actuator>'' s))
            = xml (append_line ''<actuator>'' s) @ new"
      "\<forall>x \<in> set new. x \<noteq> ''<worldbody>''"
    by blast
  then have "xml (add_actuators env robot s) = xml s @ ([''<actuator>''] @ new @ [''</actuator>''])
      \<and> (\<forall>x \<in> set ([''<actuator>''] @ new @ [''</actuator>'']). x \<noteq> ''<worldbody>'')"
    by (simp add: add_actuators_def append_line_def)
  then show ?thesis by blast
qed

lemma build_head_last:
  "\<exists>s1. build_head robot s = append_line ''<worldbody>'' s1"
  unfolding build_head_def Let_def foldl.simps by blast

text \<open>
  When build returns, the worldbody element of its document holds the fragments add_link
  has written from the base link, with no incoming joint and the identity as the world
  transform of the parent.
\<close>

lemma build_worldbody:
  assumes "build env depth robot self = Inr (doc, self')"
  shows "\<exists>s0 body. add_link env depth robot (get_base_link robot) None (eye4 env) s0 = Inr body
           \<and> xml body = xml s0 @ worldbody_section (xml self')"
proof -
  from assms [unfolded build_Inr] obtain body where
    body: "add_link env depth robot (get_base_link robot) None (eye4 env)
             (build_head robot self) = Inr body"
    and self': "self' = append_line ''</mujoco>''
                   (add_actuators env robot
                      (build_assets env (append_line ''</worldbody>'' body)))"
    by auto
  let ?s4 = "build_assets env (append_line ''</worldbody>'' body)"
  from add_link_traces [OF body, of 0] obtain new where
    new: "xml body = xml (build_head robot self) @ new"
      "list_all (\<lambda>x. x \<noteq> ''<worldbody>'' \<and> x \<noteq> ''</worldbody>'') new"
    unfolding traces_def by blast
  from build_head_last [of robot self] obtain s1 where
    "build_head robot self = append_line ''<worldbody>'' s1" ..
  then have head: "xml (build_head robot self) = xml s1 @ [''<worldbody>'']"
    by (simp add: xml_append_line)
  from add_actuators_after [of env robot ?s4] obtain acts where
    acts: "xml (add_actuators env robot ?s4) = xml ?s4 @ acts"
      "\<forall>x \<in> set acts. x \<noteq> ''<worldbody>''"
    by blast
  let ?after = "[''<asset>''] @ map mesh_decl (set_iter env (meshes body))
                @ map (material_decl env) (materials body) @ [''</asset>'']
                @ acts @ [''</mujoco>'']"
  have xml': "xml self' = xml s1 @ [''<worldbody>''] @ new @ [''</worldbody>''] @ ?after"
    using acts(1) new(1) head
    by (simp add: self' xml_append_line build_assets_xml append_line_def)
  have "\<forall>x \<in> set new. x \<noteq> ''</worldbody>'' \<and> x \<noteq> ''<worldbody>''"
    using new(2) by (auto simp add: list_all_iff)
  moreover have "\<forall>x \<in> set ?after. x \<noteq> ''<worldbody>''"
    using acts(2) by (auto simp add: mesh_decl_def material_decl_def)
  ultimately have "worldbody_section (xml self') = new"
    unfolding xml' by (rule worldbody_section_found)
  with body new(1) show ?thesis by blast
qed

lemma traces_exact:
  assumes "traces env d s s' vs" and "xml s' = xml s @ new"
  shows "map Some (bodies d new) = map (body_entry env) vs"
  using assms by (auto simp add: traces_def)

lemma body_entry_fst: "map_option fst (body_entry env v) = body_element env v"
  by (simp add: body_entry_def option.map_comp comp_def option.map_ident)

lemma build_bodies:
  assumes "build env depth robot self = Inr (doc, self')"
  shows "map Some (bodies 0 (worldbody_section (xml self')))
         = map (body_entry env) (walk env depth robot (get_base_link robot) None (eye4 env) 0)"
proof -
  from build_worldbody [OF assms] obtain s0 body where
    body: "add_link env depth robot (get_base_link robot) None (eye4 env) s0 = Inr body"
    and x: "xml body = xml s0 @ worldbody_section (xml self')"
    by blast
  from traces_exact [OF add_link_traces [OF body] x] show ?thesis .
qed

subsection \<open>The bodies of the document\<close>





lemma demo_fork_bodies:
  \<open>\<exists>doc self'. build shift_env 4 demo_fork new_exporter = Inr (doc, self')
     \<and> bodies 0 (worldbody_section (xml self')) =
         [(''<body name="L0" pos="0 0 0" quat="1 0 0 0" >'', 0),
          (''<body name="L1" pos="1 0 0" quat="1 0 0 0" >'', 1),
          (''<body name="L2" pos="0 2 0" quat="1 0 0 0" >'', 2),
          (''<body name="L3" pos="0 0 3" quat="1 0 0 0" >'', 1)]\<close>
  by (simp add: build_def build_head_def build_assets_def add_actuators_def add_actuator_def
        demo_fork_def demo_link_def demo_joint_def dict_get_def
        get_base_link_def get_link_joints_def numeral_eq_Suc Let_def T_world_of_def
        shift_env_def new_exporter_def append_line_def body_node_def
        pos_quat_def g20_whole_def pystr_whole_def str_int_def add_inertial_def mat_at_def
        add_joint_def worldbody_section_def mesh_decl_def material_decl_def)



text \<open>
  Claim C6. When build returns a document, the elements that open a body in its worldbody
  element are, in order, the body elements of the visits of the walk from the base link:
  the world transform of a visited body is the identity for the base link, which has no
  incoming joint, and the transform carried by the incoming joint otherwise; the world
  transform of its parent is the identity for the base link and the world transform of
  the body above it otherwise; and the pos and quat attributes of the body node are the
  position and the quaternion of \<open>invert(T_world_parent) \<cdot> T_world_body\<close>.
\<close>

theorem body_poses:
  assumes "build env depth robot self = Inr (doc, self')"
  shows "map Some (filter (prefix ''<body '') (worldbody_section (xml self')))
         = map (body_element env)
             (walk env depth robot (get_base_link robot) None (eye4 env) 0)"
proof -
  have "map Some (filter (prefix ''<body '') (worldbody_section (xml self')))
        = map (map_option fst) (map Some (bodies 0 (worldbody_section (xml self'))))"
    by (simp add: bodies_filter [symmetric, of _ 0] comp_def)
  also have "\<dots> = map (map_option fst)
                    (map (body_entry env)
                       (walk env depth robot (get_base_link robot) None (eye4 env) 0))"
    by (simp only: build_bodies [OF assms])
  also have "\<dots> = map (body_element env)
                    (walk env depth robot (get_base_link robot) None (eye4 env) 0)"
    by (simp add: comp_def body_entry_fst)
  finally show ?thesis .
qed

theorem body_poses_witness:
  \<open>\<exists>doc self'. build shift_env 4 demo_fork new_exporter = Inr (doc, self')
     \<and> filter (prefix ''<body '') (worldbody_section (xml self')) =
         [''<body name="L0" pos="0 0 0" quat="1 0 0 0" >'',
          ''<body name="L1" pos="1 0 0" quat="1 0 0 0" >'',
          ''<body name="L2" pos="0 2 0" quat="1 0 0 0" >'',
          ''<body name="L3" pos="0 0 3" quat="1 0 0 0" >'']
     \<and> map (body_element shift_env)
          (walk shift_env 4 demo_fork (get_base_link demo_fork) None (eye4 shift_env) 0) =
         [Some ''<body name="L0" pos="0 0 0" quat="1 0 0 0" >'',
          Some ''<body name="L1" pos="1 0 0" quat="1 0 0 0" >'',
          Some ''<body name="L2" pos="0 2 0" quat="1 0 0 0" >'',
          Some ''<body name="L3" pos="0 0 3" quat="1 0 0 0" >'']\<close>
proof -
  from demo_fork_bodies obtain doc self' where
    b: "build shift_env 4 demo_fork new_exporter = Inr (doc, self')"
    and x: "bodies 0 (worldbody_section (xml self')) =
            [(''<body name=\"L0\" pos=\"0 0 0\" quat=\"1 0 0 0\" >'', 0),
             (''<body name=\"L1\" pos=\"1 0 0\" quat=\"1 0 0 0\" >'', 1),
             (''<body name=\"L2\" pos=\"0 2 0\" quat=\"1 0 0 0\" >'', 2),
             (''<body name=\"L3\" pos=\"0 0 3\" quat=\"1 0 0 0\" >'', 1)]"
    by blast
  from arg_cong [OF x, of "map fst"]
  have f: "filter (prefix ''<body '') (worldbody_section (xml self')) =
         [''<body name=\"L0\" pos=\"0 0 0\" quat=\"1 0 0 0\" >'',
          ''<body name=\"L1\" pos=\"1 0 0\" quat=\"1 0 0 0\" >'',
          ''<body name=\"L2\" pos=\"0 2 0\" quat=\"1 0 0 0\" >'',
          ''<body name=\"L3\" pos=\"0 0 3\" quat=\"1 0 0 0\" >'']"
    unfolding bodies_filter by simp
  from body_poses [OF b] have
    "map (body_element shift_env)
          (walk shift_env 4 demo_fork (get_base_link demo_fork) None (eye4 shift_env) 0)
     = map Some (filter (prefix ''<body '') (worldbody_section (xml self')))"
    by (rule sym)
  with b f show ?thesis by simp
qed

end
